theory Spec2Isabelle
  imports Complex_Main "HOL-Library.Word" "HOL-Library.Sublist"
begin

unbundle bit_operations_syntax

section \<open>Data model of the GPU clip-mask manager\<close>

text \<open>
  The development embeds \<^verbatim>\<open>GrClipMaskManager\<close> (the second document of
  \<^verbatim>\<open>src/gpu/effects/GrDistanceFieldTextureEffect.h\<close>). Enumerations are datatypes whose
  constructors carry the names of the source, classes are records, pointers that may be
  \<^verbatim>\<open>NULL\<close> are options, and the collaborators the manager calls but does not define
  (path-renderer lookup, processor factories, texture allocation, geometric tests) are
  fields of an environment record.
\<close>

datatype SkRegion_Op =
    kDifference_Op | kIntersect_Op | kUnion_Op | kXOR_Op | kReverseDifference_Op | kReplace_Op

datatype Element_Type = kEmpty_Type | kRect_Type | kRRect_Type | kPath_Type

datatype InitialState = kAllIn_InitialState | kAllOut_InitialState

datatype ClipMaskType = kNone_ClipMaskType | kAlpha_ClipMaskType | kStencil_ClipMaskType

datatype StencilClipMode =
    kModifyClip_StencilClipMode | kRespectClip_StencilClipMode | kIgnoreClip_StencilClipMode

text \<open>
  \<^verbatim>\<open>GrBlendCoeff\<close> is declared outside the sources at hand; the constructors are the
  coefficient names the code base uses: \<^verbatim>\<open>SC\<close>/\<^verbatim>\<open>DC\<close> are the source and
  destination colour, \<^verbatim>\<open>SA\<close>/\<^verbatim>\<open>DA\<close> the source and destination alpha,
  \<^verbatim>\<open>ConstC\<close>/\<^verbatim>\<open>ConstA\<close> the constant colour and its alpha, and a leading
  \<^verbatim>\<open>I\<close> is "one minus".
\<close>

datatype GrBlendCoeff =
    kZero_GrBlendCoeff | kOne_GrBlendCoeff
  | kSC_GrBlendCoeff | kISC_GrBlendCoeff | kDC_GrBlendCoeff | kIDC_GrBlendCoeff
  | kSA_GrBlendCoeff | kISA_GrBlendCoeff | kDA_GrBlendCoeff | kIDA_GrBlendCoeff
  | kConstC_GrBlendCoeff | kIConstC_GrBlendCoeff | kConstA_GrBlendCoeff | kIConstA_GrBlendCoeff

datatype GrStencilOp =
    kKeep_StencilOp | kReplace_StencilOp | kIncWrap_StencilOp | kIncClamp_StencilOp
  | kDecWrap_StencilOp | kDecClamp_StencilOp | kZero_StencilOp | kInvert_StencilOp

text \<open>
  The stencil functions: eight basic ones, then the five clip-relative ones in the order in
  which the rows of \<^verbatim>\<open>gSpecialToBasicStencilFunc\<close> list them.
\<close>

datatype GrStencilFunc =
    kAlways_StencilFunc | kNever_StencilFunc | kGreater_StencilFunc | kGEqual_StencilFunc
  | kLess_StencilFunc | kLEqual_StencilFunc | kEqual_StencilFunc | kNotEqual_StencilFunc
  | kAlwaysIfInClip_StencilFunc | kEqualIfInClip_StencilFunc | kLessIfInClip_StencilFunc
  | kLEqualIfInClip_StencilFunc | kNonZeroIfInClip_StencilFunc

datatype GrPrimitiveEdgeType =
    kFillBW_GrProcessorEdgeType | kFillAA_GrProcessorEdgeType
  | kInverseFillBW_GrProcessorEdgeType | kInverseFillAA_GrProcessorEdgeType

datatype DrawType =
    kColor_DrawType | kColorAntiAlias_DrawType | kStencilOnly_DrawType
  | kStencilAndColor_DrawType | kStencilAndColorAntiAlias_DrawType

datatype StencilSupport =
    kNoSupport_StencilSupport | kStencilOnly_StencilSupport | kNoRestriction_StencilSupport

record SkIPoint =
  fX :: int
  fY :: int

record SkIRect =
  fLeft :: int
  fTop :: int
  fRight :: int
  fBottom :: int

text \<open>
  \<^verbatim>\<open>SkRect\<close> holds scalars. The manager only shifts such a rectangle by an integer
  offset and hands it to tests that live elsewhere; those tests are fields of the
  environment, so no property below depends on scalar rounding.
\<close>

record SkRect =
  sLeft :: real
  sTop :: real
  sRight :: real
  sBottom :: real

definition SkIRect_MakeWH :: "int \<Rightarrow> int \<Rightarrow> SkIRect" where
  "SkIRect_MakeWH w h = \<lparr>fLeft = 0, fTop = 0, fRight = w, fBottom = h\<rparr>"

definition SkIRect_offset :: "SkIRect \<Rightarrow> SkIPoint \<Rightarrow> SkIRect" where
  "SkIRect_offset r p =
     \<lparr>fLeft = fLeft r + fX p, fTop = fTop r + fY p,
      fRight = fRight r + fX p, fBottom = fBottom r + fY p\<rparr>"

definition SkIRect_width :: "SkIRect \<Rightarrow> int" where
  "SkIRect_width r = fRight r - fLeft r"

definition SkIRect_height :: "SkIRect \<Rightarrow> int" where
  "SkIRect_height r = fBottom r - fTop r"

definition SkIPoint_neg :: "SkIPoint \<Rightarrow> SkIPoint" where
  "SkIPoint_neg p = \<lparr>fX = - fX p, fY = - fY p\<rparr>"

definition SkRect_offset :: "SkRect \<Rightarrow> real \<Rightarrow> real \<Rightarrow> SkRect" where
  "SkRect_offset r dx dy =
     \<lparr>sLeft = sLeft r + dx, sTop = sTop r + dy, sRight = sRight r + dx, sBottom = sBottom r + dy\<rparr>"

text \<open>
  A clip element: set operator, shape kind, anti-aliasing flag, inverse-fill flag, and a
  handle \<open>geom\<close> standing for its geometry, which only the collaborators inspect.
\<close>

record Element =
  getOp :: SkRegion_Op
  getType :: Element_Type
  isAA :: bool
  isInverseFilled :: bool
  geom :: nat

subsection \<open>Stencil settings\<close>

text \<open>
  \<^verbatim>\<open>GrStencilSettings\<close> keeps, for the front and the back face, the two stencil
  operations, the function, and three 16-bit quantities.
\<close>

record StencilFace =
  passOp :: GrStencilOp
  failOp :: GrStencilOp
  func :: GrStencilFunc
  funcMask :: "16 word"
  funcRef :: "16 word"
  writeMask :: "16 word"

record GrStencilSettings =
  kFront_Face :: StencilFace
  kBack_Face :: StencilFace

text \<open>\<^verbatim>\<open>GR_STATIC_CONST_SAME_STENCIL\<close>: both faces get the same six values.\<close>

definition SAME_STENCIL ::
  "GrStencilOp \<Rightarrow> GrStencilOp \<Rightarrow> GrStencilFunc \<Rightarrow> 16 word \<Rightarrow> 16 word \<Rightarrow> 16 word
     \<Rightarrow> GrStencilSettings" where
  "SAME_STENCIL pass fail f fmask fref wmask =
     (let face = \<lparr>passOp = pass, failOp = fail, func = f, funcMask = fmask, funcRef = fref,
                   writeMask = wmask\<rparr>
      in \<lparr>kFront_Face = face, kBack_Face = face\<rparr>)"

text \<open>
  \<^verbatim>\<open>GrStencilSettings::isDisabled\<close>: both faces keep the stencil buffer and always pass.
\<close>

definition isDisabled :: "GrStencilSettings \<Rightarrow> bool" where
  "isDisabled s =
     (passOp (kFront_Face s) = kKeep_StencilOp \<and> passOp (kBack_Face s) = kKeep_StencilOp \<and>
      failOp (kFront_Face s) = kKeep_StencilOp \<and> failOp (kBack_Face s) = kKeep_StencilOp \<and>
      func (kFront_Face s) = kAlways_StencilFunc \<and> func (kBack_Face s) = kAlways_StencilFunc)"

definition copyFrontSettingsToBack :: "GrStencilSettings \<Rightarrow> GrStencilSettings" where
  "copyFrontSettingsToBack s = s\<lparr>kBack_Face := kFront_Face s\<rparr>"

text \<open>\<^verbatim>\<open>func >= kBasicStencilFuncCount\<close>: the function is one of the clip-relative ones.\<close>

fun isClipFunc :: "GrStencilFunc \<Rightarrow> bool" where
  "isClipFunc kAlwaysIfInClip_StencilFunc = True"
| "isClipFunc kEqualIfInClip_StencilFunc = True"
| "isClipFunc kLessIfInClip_StencilFunc = True"
| "isClipFunc kLEqualIfInClip_StencilFunc = True"
| "isClipFunc kNonZeroIfInClip_StencilFunc = True"
| "isClipFunc _ = False"

text \<open>\<^verbatim>\<open>func - kBasicStencilFuncCount\<close>, the column of the table.\<close>

fun clipFuncIndex :: "GrStencilFunc \<Rightarrow> nat" where
  "clipFuncIndex kAlwaysIfInClip_StencilFunc = 0"
| "clipFuncIndex kEqualIfInClip_StencilFunc = 1"
| "clipFuncIndex kLessIfInClip_StencilFunc = 2"
| "clipFuncIndex kLEqualIfInClip_StencilFunc = 3"
| "clipFuncIndex kNonZeroIfInClip_StencilFunc = 4"
| "clipFuncIndex _ = 0"

text \<open>
  \<^verbatim>\<open>gSpecialToBasicStencilFunc[2][kClipStencilFuncCount]\<close>: row 0 when stencil clipping
  is disabled, row 1 when it is enabled.
\<close>

definition gSpecialToBasicStencilFunc :: "GrStencilFunc list list" where
  "gSpecialToBasicStencilFunc =
     [ [kAlways_StencilFunc, kEqual_StencilFunc, kLess_StencilFunc, kLEqual_StencilFunc,
        kNotEqual_StencilFunc],
       [kEqual_StencilFunc, kEqual_StencilFunc, kLess_StencilFunc, kLEqual_StencilFunc,
        kLess_StencilFunc] ]"

text \<open>
  One turn of the loop of \<^verbatim>\<open>adjustStencilParams\<close> on the settings of one face.
  \<open>clipBit\<close> and \<open>userBits\<close> are \<^verbatim>\<open>unsigned int\<close>; the three masks are
  \<^verbatim>\<open>uint16_t\<close>, so every assignment to them truncates to 16 bits.
\<close>

definition adjustFace :: "StencilClipMode \<Rightarrow> 32 word \<Rightarrow> 32 word \<Rightarrow> StencilFace \<Rightarrow> StencilFace" where
  "adjustFace mode clipBit userBits face =
     (let f = func face;
          wm = (ucast (ucast (writeMask face) AND userBits) :: 16 word);
          fm = funcMask face;
          fr = funcRef face;
          respectClip = (mode = kRespectClip_StencilClipMode);
          masked_fm = (ucast (ucast fm AND userBits) :: 16 word);
          masked_fr = (ucast (ucast fr AND userBits) :: 16 word);
          (f', fm', fr') =
            (if isClipFunc f then
               (let (m, r) =
                  (if respectClip then
                     (case f of
                        kAlwaysIfInClip_StencilFunc \<Rightarrow> (ucast clipBit, ucast clipBit)
                      | kEqualIfInClip_StencilFunc \<Rightarrow>
                          (ucast ((ucast fm AND userBits) OR clipBit),
                           ucast ((ucast fr AND userBits) OR clipBit))
                      | kLessIfInClip_StencilFunc \<Rightarrow>
                          (ucast ((ucast fm AND userBits) OR clipBit),
                           ucast ((ucast fr AND userBits) OR clipBit))
                      | kLEqualIfInClip_StencilFunc \<Rightarrow>
                          (ucast ((ucast fm AND userBits) OR clipBit),
                           ucast ((ucast fr AND userBits) OR clipBit))
                      | kNonZeroIfInClip_StencilFunc \<Rightarrow>
                          (ucast ((ucast fm AND userBits) OR clipBit), ucast clipBit)
                      | _ \<Rightarrow> (fm, fr))
                   else (masked_fm, masked_fr))
                in (gSpecialToBasicStencilFunc ! (if respectClip then 1 else 0) ! clipFuncIndex f,
                    m, r))
             else (f, masked_fm, masked_fr))
      in face\<lparr>func := f', writeMask := wm, funcMask := fm', funcRef := fr'\<rparr>)"

text \<open>
  \<^verbatim>\<open>GrClipMaskManager::adjustStencilParams\<close>. \<open>twoSided\<close> is
  \<^verbatim>\<open>fClipTarget->caps()->twoSidedStencilSupport()\<close>. The loop runs its body on the front
  face and, when \<open>twoSided\<close> holds, once more on the back face; without two-sided support
  the front settings are copied to the back afterwards. \<^verbatim>\<open>SkASSERT(stencilBitCnt > 0)\<close>
  is compiled out of release builds; the shift count is \<open>stencilBitCnt - 1\<close>.
\<close>

definition adjustStencilParams ::
  "bool \<Rightarrow> GrStencilSettings \<Rightarrow> StencilClipMode \<Rightarrow> int \<Rightarrow> GrStencilSettings" where
  "adjustStencilParams twoSided settings mode stencilBitCnt =
     (if mode = kModifyClip_StencilClipMode then settings
      else
        (let clipBit = (push_bit (nat (stencilBitCnt - 1)) 1 :: 32 word);
             userBits = clipBit - 1;
             s1 = settings\<lparr>kFront_Face := adjustFace mode clipBit userBits (kFront_Face settings)\<rparr>;
             s2 = (if twoSided
                   then s1\<lparr>kBack_Face := adjustFace mode clipBit userBits (kBack_Face s1)\<rparr>
                   else s1)
         in if \<not> twoSided then copyFrontSettingsToBack s2 else s2))"

subsection \<open>Render targets, textures, draw state\<close>

text \<open>
  A render target as the manager sees it: its size, its sample count and its stencil buffer
  (\<open>None\<close> for \<^verbatim>\<open>NULL\<close>, otherwise the number of stencil bits).
\<close>

record GrRenderTarget =
  rt_id :: nat
  rt_width :: int
  rt_height :: int
  numSamples :: int
  getStencilBuffer :: "int option"

text \<open>
  Modelled from the spec: \<^verbatim>\<open>GrRenderTarget::isMultisampled\<close> is declared outside the
  sources. Section 4.1 reads the test \<^verbatim>\<open>0 == rt->numSamples()\<close> as "the target is not
  multisampled", so a target is multisampled when its sample count is not zero.
\<close>

definition isMultisampled :: "GrRenderTarget \<Rightarrow> bool" where
  "isMultisampled rt = (numSamples rt \<noteq> 0)"

record GrTexture =
  tex_id :: nat
  tex_width :: int
  tex_height :: int
  asRenderTarget :: GrRenderTarget

datatype GrPixelConfig = kAlpha_8_GrPixelConfig | kRGBA_8888_GrPixelConfig

record GrSurfaceDesc =
  kRenderTarget_GrSurfaceFlag :: bool
  kNoStencil_GrSurfaceFlag :: bool
  fWidth :: int
  fHeight :: int
  fConfig :: GrPixelConfig

text \<open>Matrices are kept symbolic: only their construction is the manager's business.\<close>

datatype SkMatrix =
    MatIdentity
  | MatTranslate int int
  | MatIDiv int int
  | MatConcat SkMatrix SkMatrix

text \<open>
  The processors the manager creates: the three clip effects of the fast path, named after
  the factory call that builds them, and the decal-mode texture-domain effect that samples
  a mask texture.
\<close>

datatype Processor =
    ConvexPolyEffect_Path GrPrimitiveEdgeType Element SkIPoint
  | RRectEffect GrPrimitiveEdgeType Element SkIPoint
  | ConvexPolyEffect_Rect GrPrimitiveEdgeType Element SkIPoint
  | TextureDomainEffect GrTexture SkMatrix SkIRect

record GrDrawState =
  renderTarget :: GrRenderTarget
  viewMatrix :: SkMatrix
  kClip_StateBit :: bool
  kCoverageDrawing_StateBit :: bool
  kNoColorWrites_StateBit :: bool
  kHWAntialias_StateBit :: bool
  srcBlend :: GrBlendCoeff
  dstBlend :: GrBlendCoeff
  stencil :: GrStencilSettings
  alpha :: "8 word"
  colorProcessors :: "Processor list"
  coverageProcessors :: "Processor list"

text \<open>
  \<^verbatim>\<open>GrDrawState drawState(matrix)\<close>: a fresh draw state with the given view matrix. The
  constructor leaves the render target unset; each of the three places that build a local
  draw state installs a target before anything reads it, and the model passes that target
  to the constructor.
\<close>

definition GrDrawState_ctor :: "SkMatrix \<Rightarrow> GrRenderTarget \<Rightarrow> GrDrawState" where
  "GrDrawState_ctor m rt =
     \<lparr>renderTarget = rt, viewMatrix = m, kClip_StateBit = False,
      kCoverageDrawing_StateBit = False, kNoColorWrites_StateBit = False,
      kHWAntialias_StateBit = False, srcBlend = kOne_GrBlendCoeff, dstBlend = kZero_GrBlendCoeff,
      stencil = SAME_STENCIL kKeep_StencilOp kKeep_StencilOp kAlways_StencilFunc 0 0 0,
      alpha = 0xff, colorProcessors = [], coverageProcessors = []\<rparr>"

definition setBlendFunc :: "GrBlendCoeff \<Rightarrow> GrBlendCoeff \<Rightarrow> GrDrawState \<Rightarrow> GrDrawState" where
  "setBlendFunc src dst ds = ds\<lparr>srcBlend := src, dstBlend := dst\<rparr>"

definition addCoverageProcessor :: "Processor \<Rightarrow> GrDrawState \<Rightarrow> GrDrawState" where
  "addCoverageProcessor fp ds = ds\<lparr>coverageProcessors := coverageProcessors ds @ [fp]\<rparr>"

definition addColorProcessor :: "Processor \<Rightarrow> GrDrawState \<Rightarrow> GrDrawState" where
  "addColorProcessor fp ds = ds\<lparr>colorProcessors := colorProcessors ds @ [fp]\<rparr>"

subsection \<open>Commands issued to the clip target\<close>

text \<open>
  Everything the manager draws goes to \<^verbatim>\<open>fClipTarget\<close>. The model records each call,
  with the draw state it was given, in a log kept in the manager's state (oldest first).
  What the target does with a command is outside the manager. The scope guards
  \<^verbatim>\<open>AutoClipRestore\<close> and \<^verbatim>\<open>AutoGeometryPush\<close> restore what they change
  when they go out of scope and are not recorded.
\<close>

datatype RectArg = IRectArg SkIRect | ElementRect Element

datatype SWCmd =
    SW_init SkIRect SkMatrix
  | SW_clear "8 word"
  | SW_drawBounds SkIRect SkRegion_Op bool "8 word"
  | SW_drawRect Element SkRegion_Op bool "8 word"
  | SW_drawPath Element bool SkRegion_Op bool "8 word"

datatype DrawCmd =
    Cmd_clear SkIRect "32 word" GrRenderTarget
  | Cmd_clearStencilClip SkIRect bool GrRenderTarget
  | Cmd_drawSimpleRect GrDrawState RectArg
  | Cmd_fillAARect GrDrawState Element
  | Cmd_drawPath nat GrDrawState Element bool
  | Cmd_stencilPath nat GrDrawState Element
  | Cmd_toTexture GrTexture "SWCmd list"

subsection \<open>The mask cache\<close>

record MaskCacheEntry =
  fLastClipGenID :: int
  fLastBound :: SkIRect
  fLastMask :: GrTexture

text \<open>
  Modelled from the spec: \<^verbatim>\<open>GrClipMaskCache\<close> (\<^verbatim>\<open>canReuse\<close>,
  \<^verbatim>\<open>getLastMask\<close>, \<^verbatim>\<open>reset\<close>, \<^verbatim>\<open>acquireMask\<close>) is not among the sources.
  Sections 3 and 4.2 describe a single active entry (generation id, clip-space bounds,
  texture) that is valid only while generation id and bounds match exactly; \<open>reset\<close> drops
  the entry, and storing goes through the texture allocator, which may fail.
\<close>

type_synonym GrClipMaskCache = "MaskCacheEntry option"

definition canReuse :: "GrClipMaskCache \<Rightarrow> int \<Rightarrow> SkIRect \<Rightarrow> bool" where
  "canReuse c genID bounds =
     (case c of None \<Rightarrow> False
      | Some e \<Rightarrow> fLastClipGenID e = genID \<and> fLastBound e = bounds)"

definition getLastMask :: "GrClipMaskCache \<Rightarrow> GrTexture option" where
  "getLastMask c = map_option fLastMask c"

definition cache_reset :: "GrClipMaskCache \<Rightarrow> GrClipMaskCache" where
  "cache_reset c = None"

definition acquireMask ::
  "(GrSurfaceDesc \<Rightarrow> GrTexture option) \<Rightarrow> GrClipMaskCache \<Rightarrow> int \<Rightarrow> GrSurfaceDesc \<Rightarrow> SkIRect
     \<Rightarrow> GrClipMaskCache" where
  "acquireMask alloc c genID desc bounds =
     (case alloc desc of None \<Rightarrow> None
      | Some t \<Rightarrow> Some \<lparr>fLastClipGenID = genID, fLastBound = bounds, fLastMask = t\<rparr>)"

subsection \<open>Collaborators and manager state\<close>

text \<open>The output of the external clip-stack reduction.\<close>

record Reduced =
  r_elements :: "Element list"
  r_genID :: int
  r_initialState :: InitialState
  r_clipSpaceIBounds :: SkIRect
  r_requiresAA :: bool

type_synonym SkClipStack = "Element list"

record GrClipData =
  fClipStack :: SkClipStack
  fOrigin :: SkIPoint

text \<open>
  The collaborators. \<open>getPathRenderer\<close> stands for
  \<^verbatim>\<open>GrContext::getPathRenderer(target, drawState, path, stroke, false, type, &support)\<close>:
  the target and the fill stroke are the same at every call, the path is the element's
  with the inverse fill toggled off, and the result is \<open>None\<close> for \<^verbatim>\<open>NULL\<close> or the
  renderer's id with the stencil support it reports. The three \<open>Create\<close> fields say
  whether the factory returns a processor. \<open>GetClipPasses\<close> returns
  \<^verbatim>\<open>canDrawDirectToClip\<close> and the settings of the passes.
\<close>

record Env =
  getPathRenderer :: "GrDrawState \<Rightarrow> Element \<Rightarrow> DrawType \<Rightarrow> (nat \<times> StencilSupport) option"
  Element_contains :: "Element \<Rightarrow> SkRect \<Rightarrow> bool"
  SkRect_Make_contains :: "SkIRect \<Rightarrow> SkRect \<Rightarrow> bool"
  Element_getBounds_roundOut :: "Element \<Rightarrow> SkIPoint \<Rightarrow> SkIRect"
  clipPath_isEmpty :: "Element \<Rightarrow> bool"
  GrConvexPolyEffect_Create_path :: "GrPrimitiveEdgeType \<Rightarrow> Element \<Rightarrow> SkIPoint \<Rightarrow> bool"
  GrRRectEffect_Create :: "GrPrimitiveEdgeType \<Rightarrow> Element \<Rightarrow> SkIPoint \<Rightarrow> bool"
  GrConvexPolyEffect_Create_rect :: "GrPrimitiveEdgeType \<Rightarrow> Element \<Rightarrow> SkIPoint \<Rightarrow> bool"
  isConfigRenderable_Alpha_8 :: bool
  refScratchTexture :: "GrSurfaceDesc \<Rightarrow> GrTexture option"
  twoSidedStencilSupport :: bool
  GetClipPasses :: "SkRegion_Op \<Rightarrow> bool \<Rightarrow> int \<Rightarrow> bool \<Rightarrow> bool \<times> GrStencilSettings list"
  isWideOpen :: "SkClipStack \<Rightarrow> bool"
  ReduceClipStack :: "SkClipStack \<Rightarrow> SkIRect \<Rightarrow> Reduced"

text \<open>
  The manager: its two mode fields, the mask cache, the log of commands sent to the clip
  target, and the clip last rendered into the stencil buffer of the render target.
\<close>

record GrClipMaskManager =
  fCurrClipMaskType :: ClipMaskType
  fClipMode :: StencilClipMode
  fAACache :: GrClipMaskCache
  fClipTarget :: "DrawCmd list"
  fLastClip :: "(int \<times> SkIRect \<times> SkIPoint) option"

definition issue :: "DrawCmd \<Rightarrow> GrClipMaskManager \<Rightarrow> GrClipMaskManager" where
  "issue c m = m\<lparr>fClipTarget := fClipTarget m @ [c]\<rparr>"

text \<open>
  Modelled from the spec: \<^verbatim>\<open>GrStencilBuffer::mustRenderClip\<close> and
  \<^verbatim>\<open>setLastClip\<close> are not among the sources. Section 4.5: the stencil buffer is keyed by
  the stored (generation id, bounds, offset), and regeneration is skipped if unchanged.
\<close>

definition mustRenderClip :: "GrClipMaskManager \<Rightarrow> int \<Rightarrow> SkIRect \<Rightarrow> SkIPoint \<Rightarrow> bool" where
  "mustRenderClip m g b off = (fLastClip m \<noteq> Some (g, b, off))"

definition setLastClip :: "int \<Rightarrow> SkIRect \<Rightarrow> SkIPoint \<Rightarrow> GrClipMaskManager \<Rightarrow> GrClipMaskManager" where
  "setLastClip g b off m = m\<lparr>fLastClip := Some (g, b, off)\<rparr>"

section \<open>The operations of the manager\<close>

subsection \<open>Helpers of the anonymous namespace\<close>

text \<open>\<^verbatim>\<open>setup_boolean_blendcoeffs\<close>; the six operators are all there are, so the
  \<^verbatim>\<open>default\<close> branch has no counterpart.\<close>

fun setup_boolean_blendcoeffs :: "SkRegion_Op \<Rightarrow> GrDrawState \<Rightarrow> GrDrawState" where
  "setup_boolean_blendcoeffs kReplace_Op ds = setBlendFunc kOne_GrBlendCoeff kZero_GrBlendCoeff ds"
| "setup_boolean_blendcoeffs kIntersect_Op ds = setBlendFunc kDC_GrBlendCoeff kZero_GrBlendCoeff ds"
| "setup_boolean_blendcoeffs kUnion_Op ds = setBlendFunc kOne_GrBlendCoeff kISC_GrBlendCoeff ds"
| "setup_boolean_blendcoeffs kXOR_Op ds = setBlendFunc kIDC_GrBlendCoeff kISC_GrBlendCoeff ds"
| "setup_boolean_blendcoeffs kDifference_Op ds = setBlendFunc kZero_GrBlendCoeff kISC_GrBlendCoeff ds"
| "setup_boolean_blendcoeffs kReverseDifference_Op ds =
     setBlendFunc kIDC_GrBlendCoeff kZero_GrBlendCoeff ds"

text \<open>\<^verbatim>\<open>setup_drawstate_aaclip\<close>: sample the mask as a decal-mode coverage processor.\<close>

definition setup_drawstate_aaclip :: "SkIRect \<Rightarrow> GrDrawState \<Rightarrow> GrTexture \<Rightarrow> GrDrawState" where
  "setup_drawstate_aaclip devBound drawState result =
     (let mat = MatConcat
                  (MatConcat (MatIDiv (tex_width result) (tex_height result))
                             (MatTranslate (- fLeft devBound) (- fTop devBound)))
                  (viewMatrix drawState);
          domainTexels = SkIRect_MakeWH (SkIRect_width devBound) (SkIRect_height devBound)
      in addCoverageProcessor (TextureDomainEffect result mat domainTexels) drawState)"

definition path_needs_SW_renderer :: "Env \<Rightarrow> GrDrawState \<Rightarrow> Element \<Rightarrow> bool \<Rightarrow> bool" where
  "path_needs_SW_renderer env drawState e doAA =
     (let type = (if doAA then kColorAntiAlias_DrawType else kColor_DrawType)
      in getPathRenderer env drawState e type = None)"

fun useSWOnlyPath :: "Env \<Rightarrow> GrDrawState \<Rightarrow> Element list \<Rightarrow> bool" where
  "useSWOnlyPath env drawState [] = False"
| "useSWOnlyPath env drawState (e # es) =
     (if getType e \<noteq> kRect_Type \<and> path_needs_SW_renderer env drawState e (isAA e) then True
      else useSWOnlyPath env drawState es)"

subsection \<open>The fast path: clip effects\<close>

text \<open>
  Modelled from the spec: \<^verbatim>\<open>GrDrawState::AutoRestoreEffects\<close> is not among the
  sources. Sections 3 and 9 describe it as a scoped guard that snapshots the processor
  chains of a draw state, to which the manager only ever appends, and reapplies the
  snapshot. The guard holds the two chain lengths; \<^verbatim>\<open>set(drawState)\<close> takes the
  snapshot, \<^verbatim>\<open>set(NULL)\<close> cuts the chains back to it and disarms the guard.
\<close>

type_synonym AutoRestoreEffects = "(nat \<times> nat) option"

definition AutoRestoreEffects_set :: "GrDrawState \<Rightarrow> AutoRestoreEffects" where
  "AutoRestoreEffects_set ds = Some (length (colorProcessors ds), length (coverageProcessors ds))"

definition AutoRestoreEffects_set_NULL ::
  "AutoRestoreEffects \<Rightarrow> GrDrawState \<Rightarrow> AutoRestoreEffects \<times> GrDrawState" where
  "AutoRestoreEffects_set_NULL are ds =
     (case are of None \<Rightarrow> (None, ds)
      | Some (m, n) \<Rightarrow>
          (None, ds\<lparr>colorProcessors := take m (colorProcessors ds),
                    coverageProcessors := take n (coverageProcessors ds)\<rparr>))"

text \<open>The inner \<^verbatim>\<open>switch\<close> on the element type: the processor, or \<open>None\<close> for none.\<close>

definition createClipEffect ::
  "Env \<Rightarrow> GrPrimitiveEdgeType \<Rightarrow> Element \<Rightarrow> SkIPoint \<Rightarrow> Processor option" where
  "createClipEffect env edgeType e clipToRTOffset =
     (case getType e of
        kPath_Type \<Rightarrow>
          (if GrConvexPolyEffect_Create_path env edgeType e clipToRTOffset
           then Some (ConvexPolyEffect_Path edgeType e clipToRTOffset) else None)
      | kRRect_Type \<Rightarrow>
          (if GrRRectEffect_Create env edgeType e clipToRTOffset
           then Some (RRectEffect edgeType e clipToRTOffset) else None)
      | kRect_Type \<Rightarrow>
          (if GrConvexPolyEffect_Create_rect env edgeType e clipToRTOffset
           then Some (ConvexPolyEffect_Rect edgeType e clipToRTOffset) else None)
      | kEmpty_Type \<Rightarrow> None)"

text \<open>The edge type chosen from the element's anti-aliasing flag and \<^verbatim>\<open>invert\<close>.\<close>

definition edgeTypeOf :: "bool \<Rightarrow> bool \<Rightarrow> GrPrimitiveEdgeType" where
  "edgeTypeOf aa invert =
     (if aa
      then (if invert then kInverseFillAA_GrProcessorEdgeType else kFillAA_GrProcessorEdgeType)
      else (if invert then kInverseFillBW_GrProcessorEdgeType else kFillBW_GrProcessorEdgeType))"

text \<open>
  One turn of the \<^verbatim>\<open>while\<close> loop of \<^verbatim>\<open>installClipEffects\<close>: \<open>None\<close> when the
  turn sets \<^verbatim>\<open>failed\<close> (the draw state is then as it was before the turn), otherwise
  the draw state after the turn. \<^verbatim>\<open>GR_AA_CLIP\<close> is 1.
\<close>

definition installClipEffect ::
  "Env \<Rightarrow> SkIPoint \<Rightarrow> SkRect option \<Rightarrow> Element \<Rightarrow> GrDrawState \<Rightarrow> GrDrawState option" where
  "installClipEffect env clipToRTOffset boundsInClipSpace e drawState =
     (let rt = renderTarget drawState;
          contained = (case boundsInClipSpace of None \<Rightarrow> False
                       | Some b \<Rightarrow> Element_contains env e b);
          opcase = (case getOp e of
                      kReplace_Op \<Rightarrow> Some (False, contained)
                    | kIntersect_Op \<Rightarrow> Some (False, contained)
                    | kDifference_Op \<Rightarrow> Some (True, False)
                    | _ \<Rightarrow> None)
      in case opcase of
           None \<Rightarrow> None
         | Some (invert, skip) \<Rightarrow>
             if skip then Some drawState
             else if isAA e \<and> isMultisampled rt then None
             else
               (let edgeType = edgeTypeOf (isAA e) invert
                in case createClipEffect env edgeType e clipToRTOffset of
                     None \<Rightarrow> None
                   | Some fp \<Rightarrow> Some (addCoverageProcessor fp drawState)))"

text \<open>The loop: the draw state when it stops, and \<^verbatim>\<open>failed\<close>.\<close>

fun installLoop ::
  "Env \<Rightarrow> SkIPoint \<Rightarrow> SkRect option \<Rightarrow> Element list \<Rightarrow> GrDrawState \<Rightarrow> GrDrawState \<times> bool" where
  "installLoop env off b [] drawState = (drawState, False)"
| "installLoop env off b (e # es) drawState =
     (case installClipEffect env off b e drawState of
        None \<Rightarrow> (drawState, True)
      | Some drawState' \<Rightarrow> installLoop env off b es drawState')"

text \<open>The draw bounds moved into clip space, when draw bounds are given.\<close>

definition boundsInClipSpace :: "SkIPoint \<Rightarrow> SkRect option \<Rightarrow> SkRect option" where
  "boundsInClipSpace clipToRTOffset drawBounds =
     map_option (\<lambda>r. SkRect_offset r (- of_int (fX clipToRTOffset)) (- of_int (fY clipToRTOffset)))
       drawBounds"

text \<open>
  \<^verbatim>\<open>GrClipMaskManager::installClipEffects\<close>: the draw state, the guard, and the
  returned \<^verbatim>\<open>!failed\<close>. The guard passed in is re-armed on the draw state first.
\<close>

definition installClipEffects ::
  "Env \<Rightarrow> GrDrawState \<Rightarrow> AutoRestoreEffects \<Rightarrow> Element list \<Rightarrow> SkIPoint \<Rightarrow> SkRect option
     \<Rightarrow> GrDrawState \<times> AutoRestoreEffects \<times> bool" where
  "installClipEffects env drawState are els clipToRTOffset drawBounds =
     (let are1 = AutoRestoreEffects_set drawState;
          (ds1, failed) = installLoop env clipToRTOffset
                            (boundsInClipSpace clipToRTOffset drawBounds) els drawState
      in if failed
         then (let (are2, ds2) = AutoRestoreEffects_set_NULL are1 ds1 in (ds2, are2, False))
         else (ds1, are1, True))"

text \<open>
  The three reasons, in the words of the specification, for which an element yields no
  coverage processor: its operator is not one the fast path supports (replace, intersect,
  difference); or the element is not skipped as containing the draw bounds and either it
  asks for coverage anti-aliasing on a multisampled target, or its shape is not
  representable by a rectangle, rounded-rectangle or convex-polygon processor.
\<close>

definition unsupportedOp :: "Element \<Rightarrow> bool" where
  "unsupportedOp e =
     (getOp e \<noteq> kReplace_Op \<and> getOp e \<noteq> kIntersect_Op \<and> getOp e \<noteq> kDifference_Op)"

definition containsDrawBounds :: "Env \<Rightarrow> SkRect option \<Rightarrow> Element \<Rightarrow> bool" where
  "containsDrawBounds env b e =
     ((getOp e = kReplace_Op \<or> getOp e = kIntersect_Op) \<and>
      (case b of None \<Rightarrow> False | Some r \<Rightarrow> Element_contains env e r))"

definition aaOnMultisampled :: "GrRenderTarget \<Rightarrow> Element \<Rightarrow> bool" where
  "aaOnMultisampled rt e = (isAA e \<and> isMultisampled rt)"

definition notRepresentable :: "Env \<Rightarrow> SkIPoint \<Rightarrow> Element \<Rightarrow> bool" where
  "notRepresentable env off e =
     (createClipEffect env (edgeTypeOf (isAA e) (getOp e = kDifference_Op)) e off = None)"

definition yieldsNoProcessor ::
  "Env \<Rightarrow> GrRenderTarget \<Rightarrow> SkIPoint \<Rightarrow> SkRect option \<Rightarrow> Element \<Rightarrow> bool" where
  "yieldsNoProcessor env rt off b e =
     (unsupportedOp e \<or>
      (\<not> containsDrawBounds env b e \<and> (aaOnMultisampled rt e \<or> notRepresentable env off e)))"

subsection \<open>Applying the stencil settings of a draw\<close>

definition basic_apply_stencil_clip_settings :: GrStencilSettings where
  "basic_apply_stencil_clip_settings =
     SAME_STENCIL kKeep_StencilOp kKeep_StencilOp kAlwaysIfInClip_StencilFunc 0 0 0"

text \<open>
  \<^verbatim>\<open>GrClipMaskManager::setDrawStateStencil\<close>. The guard
  \<^verbatim>\<open>AutoRestoreStencil\<close> remembers the stencil settings the draw state had
  (\<open>None\<close> while it is not armed).
\<close>

definition setDrawStateStencil ::
  "Env \<Rightarrow> GrClipMaskManager \<Rightarrow> GrDrawState \<Rightarrow> GrStencilSettings option
     \<Rightarrow> GrDrawState \<times> GrStencilSettings option" where
  "setDrawStateStencil env m drawState ars =
     (let apply = (\<lambda>settings.
            let stencilBits = (case getStencilBuffer (renderTarget drawState) of
                                 None \<Rightarrow> 0 | Some b \<Rightarrow> b);
                settings' = adjustStencilParams (twoSidedStencilSupport env) settings
                              (fClipMode m) stencilBits
            in (drawState\<lparr>stencil := settings'\<rparr>, Some (stencil drawState)))
      in if isDisabled (stencil drawState) then
           (if fClipMode m = kRespectClip_StencilClipMode
            then apply basic_apply_stencil_clip_settings
            else (drawState, ars))
         else apply (stencil drawState))"

subsection \<open>Drawing one element into a mask\<close>

text \<open>\<^verbatim>\<open>GrClipMaskManager::drawElement\<close>; \<open>pr\<close> is the renderer handed in, if any.\<close>

definition drawElement ::
  "Env \<Rightarrow> GrClipMaskManager \<Rightarrow> GrDrawState \<Rightarrow> GrTexture \<Rightarrow> Element \<Rightarrow> nat option
     \<Rightarrow> GrClipMaskManager \<times> bool" where
  "drawElement env m drawState target e pr =
     (let ds = drawState\<lparr>renderTarget := asRenderTarget target\<rparr>
      in case getType e of
           kEmpty_Type \<Rightarrow> (m, True)
         | kRect_Type \<Rightarrow>
             (if isAA e then (issue (Cmd_fillAARect ds e) m, True)
              else (issue (Cmd_drawSimpleRect ds (ElementRect e)) m, True))
         | _ \<Rightarrow>
             (let type = (if isAA e then kColorAntiAlias_DrawType else kColor_DrawType);
                  pr' = (case pr of
                           None \<Rightarrow> map_option fst (getPathRenderer env ds e type)
                         | Some r \<Rightarrow> Some r)
              in case pr' of
                   None \<Rightarrow> (m, False)
                 | Some r \<Rightarrow> (issue (Cmd_drawPath r ds e (isAA e)) m, True)))"

text \<open>
  \<^verbatim>\<open>GrClipMaskManager::canStencilAndDrawElement\<close>: the draw state with the target
  installed, the renderer written to \<^verbatim>\<open>*pr\<close> (left \<^verbatim>\<open>NULL\<close> for a rectangle), and the
  result.
\<close>

definition canStencilAndDrawElement ::
  "Env \<Rightarrow> GrDrawState \<Rightarrow> GrTexture \<Rightarrow> Element \<Rightarrow> GrDrawState \<times> nat option \<times> bool" where
  "canStencilAndDrawElement env drawState target e =
     (let ds = drawState\<lparr>renderTarget := asRenderTarget target\<rparr>
      in if getType e = kRect_Type then (ds, None, True)
         else
           (let type = (if isAA e then kStencilAndColorAntiAlias_DrawType
                        else kStencilAndColor_DrawType);
                pr = map_option fst (getPathRenderer env ds e type)
            in (ds, pr, pr \<noteq> None)))"

definition mergeMask ::
  "GrClipMaskManager \<Rightarrow> GrDrawState \<Rightarrow> GrTexture \<Rightarrow> GrTexture \<Rightarrow> SkRegion_Op \<Rightarrow> SkIRect \<Rightarrow> SkIRect
     \<Rightarrow> GrClipMaskManager" where
  "mergeMask m drawState dstMask srcMask op dstBound srcBound =
     (let ds1 = drawState\<lparr>viewMatrix := MatIdentity, renderTarget := asRenderTarget dstMask\<rparr>;
          ds2 = setup_boolean_blendcoeffs op ds1;
          sampleM = MatIDiv (tex_width srcMask) (tex_height srcMask);
          ds3 = addColorProcessor (TextureDomainEffect srcMask sampleM srcBound) ds2
      in issue (Cmd_drawSimpleRect ds3 (IRectArg dstBound)) m)"

definition createTempMask :: "Env \<Rightarrow> int \<Rightarrow> int \<Rightarrow> GrTexture option" where
  "createTempMask env width height =
     refScratchTexture env
       \<lparr>kRenderTarget_GrSurfaceFlag = True, kNoStencil_GrSurfaceFlag = True,
        fWidth = width, fHeight = height, fConfig = kAlpha_8_GrPixelConfig\<rparr>"

subsection \<open>Cache lookup and allocation\<close>

definition getCachedMaskTexture :: "GrClipMaskManager \<Rightarrow> int \<Rightarrow> SkIRect \<Rightarrow> GrTexture option" where
  "getCachedMaskTexture m elementsGenID bounds =
     (let cached = canReuse (fAACache m) elementsGenID bounds
      in if \<not> cached then None else getLastMask (fAACache m))"

definition allocMaskTexture ::
  "Env \<Rightarrow> GrClipMaskManager \<Rightarrow> int \<Rightarrow> SkIRect \<Rightarrow> bool \<Rightarrow> GrClipMaskManager \<times> GrTexture option" where
  "allocMaskTexture env m elementsGenID bounds willUpload =
     (let c1 = cache_reset (fAACache m);
          config = (if willUpload \<or> isConfigRenderable_Alpha_8 env
                    then kAlpha_8_GrPixelConfig else kRGBA_8888_GrPixelConfig);
          desc = \<lparr>kRenderTarget_GrSurfaceFlag = \<not> willUpload, kNoStencil_GrSurfaceFlag = False,
                  fWidth = SkIRect_width bounds, fHeight = SkIRect_height bounds,
                  fConfig = config\<rparr>;
          c2 = acquireMask (refScratchTexture env) c1 elementsGenID desc bounds
      in (m\<lparr>fAACache := c2\<rparr>, getLastMask c2))"

subsection \<open>The alpha mask rendered on the GPU\<close>

definition kStencilInElement :: GrStencilSettings where
  "kStencilInElement =
     SAME_STENCIL kReplace_StencilOp kReplace_StencilOp kAlways_StencilFunc 0xffff 0xffff 0xffff"

definition kDrawOutsideElement :: GrStencilSettings where
  "kDrawOutsideElement =
     SAME_STENCIL kZero_StencilOp kZero_StencilOp kEqual_StencilFunc 0xffff 0x0000 0xffff"

text \<open>
  The body of the loop of \<^verbatim>\<open>createAlphaClipMask\<close> for one element: the manager, the
  scratch texture \<^verbatim>\<open>temp\<close>, and whether the loop goes on (\<open>False\<close> where the source
  resets the cache and returns \<^verbatim>\<open>NULL\<close>).
\<close>

definition alphaElement ::
  "Env \<Rightarrow> GrTexture \<Rightarrow> SkIRect \<Rightarrow> Element \<Rightarrow> GrTexture option \<Rightarrow> GrClipMaskManager
     \<Rightarrow> GrClipMaskManager \<times> GrTexture option \<times> bool" where
  "alphaElement env result clipSpaceIBounds e temp m =
     (let clipToMaskOffset = \<lparr>fX = - fLeft clipSpaceIBounds, fY = - fTop clipSpaceIBounds\<rparr>;
          maskSpaceIBounds =
            SkIRect_MakeWH (SkIRect_width clipSpaceIBounds) (SkIRect_height clipSpaceIBounds);
          translate = MatTranslate (fX clipToMaskOffset) (fY clipToMaskOffset);
          op = getOp e;
          invert = isInverseFilled e;
          drawState = (GrDrawState_ctor translate (asRenderTarget result))
                        \<lparr>kCoverageDrawing_StateBit := True, kClip_StateBit := True\<rparr>
      in if invert \<or> op = kIntersect_Op \<or> op = kReverseDifference_Op then
           (let (ds1, pr, can) = canStencilAndDrawElement env drawState result e;
                useTemp = \<not> can
            in if useTemp then
                 (let maskSpaceElementIBounds =
                        (if invert then maskSpaceIBounds
                         else Element_getBounds_roundOut env e clipToMaskOffset);
                      temp' = (case temp of
                                 None \<Rightarrow> createTempMask env (fRight maskSpaceIBounds)
                                                          (fBottom maskSpaceIBounds)
                               | Some t \<Rightarrow> Some t)
                  in case temp' of
                       None \<Rightarrow> (m\<lparr>fAACache := cache_reset (fAACache m)\<rparr>, None, False)
                     | Some dst \<Rightarrow>
                         (let m1 = issue (Cmd_clear maskSpaceElementIBounds
                                            (if invert then 0xffffffff else 0x00000000)
                                            (asRenderTarget dst)) m;
                              ds2 = setup_boolean_blendcoeffs kReplace_Op ds1;
                              ds3 = ds2\<lparr>alpha := (if invert then 0x00 else 0xff)\<rparr>;
                              backupDrawState = ds3;
                              (m2, drawn) = drawElement env m1 ds3 dst e pr
                          in if \<not> drawn
                             then (m2\<lparr>fAACache := cache_reset (fAACache m2)\<rparr>, temp', False)
                             else (mergeMask m2 backupDrawState result dst op maskSpaceIBounds
                                     maskSpaceElementIBounds, temp', True)))
               else
                 (let ds2 = setup_boolean_blendcoeffs op (ds1\<lparr>stencil := kStencilInElement\<rparr>);
                      ds3 = ds2\<lparr>alpha := (if invert then 0x00 else 0xff)\<rparr>;
                      backupDrawState = ds3;
                      (m2, drawn) = drawElement env m ds3 result e pr
                  in if \<not> drawn
                     then (m2\<lparr>fAACache := cache_reset (fAACache m2)\<rparr>, temp, False)
                     else
                       (let backup' = backupDrawState
                              \<lparr>alpha := (if invert then 0xff else 0x00),
                               stencil := kDrawOutsideElement\<rparr>
                        in (issue (Cmd_drawSimpleRect backup' (IRectArg clipSpaceIBounds)) m2,
                            temp, True))))
         else
           (let ds1 = setup_boolean_blendcoeffs op (drawState\<lparr>alpha := 0xff\<rparr>);
                (m1, drawn) = drawElement env m ds1 result e None
            in (m1, temp, True)))"

fun alphaLoop ::
  "Env \<Rightarrow> GrTexture \<Rightarrow> SkIRect \<Rightarrow> Element list \<Rightarrow> GrTexture option \<Rightarrow> GrClipMaskManager
     \<Rightarrow> GrClipMaskManager \<times> bool" where
  "alphaLoop env result b [] temp m = (m, True)"
| "alphaLoop env result b (e # es) temp m =
     (case alphaElement env result b e temp m of
        (m', temp', ok) \<Rightarrow> if ok then alphaLoop env result b es temp' m' else (m', False))"

text \<open>\<^verbatim>\<open>GrClipMaskManager::createAlphaClipMask\<close>: the manager afterwards and the mask
  (\<open>None\<close> for \<^verbatim>\<open>NULL\<close>).\<close>

definition createAlphaClipMask ::
  "Env \<Rightarrow> GrClipMaskManager \<Rightarrow> int \<Rightarrow> InitialState \<Rightarrow> Element list \<Rightarrow> SkIRect
     \<Rightarrow> GrClipMaskManager \<times> GrTexture option" where
  "createAlphaClipMask env m elementsGenID init els clipSpaceIBounds =
     (case getCachedMaskTexture m elementsGenID clipSpaceIBounds of
        Some result \<Rightarrow> (m\<lparr>fCurrClipMaskType := kAlpha_ClipMaskType\<rparr>, Some result)
      | None \<Rightarrow>
          (case allocMaskTexture env m elementsGenID clipSpaceIBounds False of
             (m1, None) \<Rightarrow> (m1\<lparr>fAACache := cache_reset (fAACache m1)\<rparr>, None)
           | (m1, Some result) \<Rightarrow>
               (let maskSpaceIBounds =
                      SkIRect_MakeWH (SkIRect_width clipSpaceIBounds)
                                     (SkIRect_height clipSpaceIBounds);
                    m2 = issue (Cmd_clear maskSpaceIBounds
                                  (if init = kAllIn_InitialState then 0xffffffff else 0x00000000)
                                  (asRenderTarget result)) m1;
                    (m3, ok) = alphaLoop env result clipSpaceIBounds els None m2
                in if ok then (m3\<lparr>fCurrClipMaskType := kAlpha_ClipMaskType\<rparr>, Some result)
                   else (m3, None))))"

subsection \<open>The alpha mask rasterised in software\<close>

text \<open>What the loop of \<^verbatim>\<open>createSoftwareClipMask\<close> asks of the helper for one element.\<close>

definition swElement :: "SkIRect \<Rightarrow> Element \<Rightarrow> SWCmd list" where
  "swElement clipSpaceIBounds e =
     (let op = getOp e
      in if op = kIntersect_Op \<or> op = kReverseDifference_Op then
           (if op = kReverseDifference_Op
            then [SW_drawBounds clipSpaceIBounds kXOR_Op False 0xFF] else [])
           @ [SW_drawPath e True kReplace_Op (isAA e) 0x00]
         else if getType e = kRect_Type then [SW_drawRect e op (isAA e) 0xFF]
         else [SW_drawPath e False op (isAA e) 0xFF])"

definition createSoftwareClipMask ::
  "Env \<Rightarrow> GrClipMaskManager \<Rightarrow> int \<Rightarrow> InitialState \<Rightarrow> Element list \<Rightarrow> SkIRect
     \<Rightarrow> GrClipMaskManager \<times> GrTexture option" where
  "createSoftwareClipMask env m elementsGenID init els clipSpaceIBounds =
     (case getCachedMaskTexture m elementsGenID clipSpaceIBounds of
        Some result \<Rightarrow> (m, Some result)
      | None \<Rightarrow>
          (let maskSpaceIBounds =
                 SkIRect_MakeWH (SkIRect_width clipSpaceIBounds) (SkIRect_height clipSpaceIBounds);
               matrix = MatTranslate (- fLeft clipSpaceIBounds) (- fTop clipSpaceIBounds);
               helper = SW_init maskSpaceIBounds matrix
                          # SW_clear (if init = kAllIn_InitialState then 0xFF else 0x00)
                          # concat (map (swElement clipSpaceIBounds) els)
           in case allocMaskTexture env m elementsGenID clipSpaceIBounds True of
                (m1, None) \<Rightarrow> (m1\<lparr>fAACache := cache_reset (fAACache m1)\<rparr>, None)
              | (m1, Some result) \<Rightarrow>
                  ((issue (Cmd_toTexture result helper) m1)
                     \<lparr>fCurrClipMaskType := kAlpha_ClipMaskType\<rparr>, Some result)))"

subsection \<open>The stencil mask\<close>

definition gDrawToStencil :: GrStencilSettings where
  "gDrawToStencil =
     SAME_STENCIL kIncClamp_StencilOp kIncClamp_StencilOp kAlways_StencilFunc 0xffff 0x0000 0xffff"

text \<open>The \<^verbatim>\<open>for\<close> loop over the passes of one element.\<close>

fun stencilPasses ::
  "bool \<Rightarrow> Element \<Rightarrow> nat option \<Rightarrow> SkIRect \<Rightarrow> GrDrawState \<Rightarrow> GrStencilSettings list
     \<Rightarrow> GrClipMaskManager \<Rightarrow> GrClipMaskManager" where
  "stencilPasses direct e pr b drawState [] m = m"
| "stencilPasses direct e pr b drawState (s # ss) m =
     (let drawStateCopy = drawState\<lparr>stencil := s\<rparr>;
          m' = (if direct then
                  (if getType e = kRect_Type
                   then issue (Cmd_drawSimpleRect drawStateCopy (ElementRect e)) m
                   else (case pr of None \<Rightarrow> m
                         | Some r \<Rightarrow> issue (Cmd_drawPath r drawStateCopy e False) m))
                else issue (Cmd_drawSimpleRect drawStateCopy (IRectArg b)) m)
      in stencilPasses direct e pr b drawState ss m')"

text \<open>
  The body of the element loop of \<^verbatim>\<open>createStencilClipMask\<close>: the manager and whether
  the loop goes on (\<open>False\<close> where the source returns \<^verbatim>\<open>false\<close> for want of a path
  renderer).
\<close>

definition stencilElement ::
  "Env \<Rightarrow> GrRenderTarget \<Rightarrow> SkIRect \<Rightarrow> SkIPoint \<Rightarrow> int \<Rightarrow> Element \<Rightarrow> GrClipMaskManager
     \<Rightarrow> GrClipMaskManager \<times> bool" where
  "stencilElement env rt clipSpaceIBounds clipSpaceToStencilOffset clipBit e m =
     (let matrix = MatTranslate (fX clipSpaceToStencilOffset) (fY clipSpaceToStencilOffset);
          ds0 = (GrDrawState_ctor matrix rt)
                  \<lparr>kClip_StateBit := True, kNoColorWrites_StateBit := True\<rparr>;
          drawState = (if isMultisampled rt then ds0\<lparr>kHWAntialias_StateBit := isAA e\<rparr> else ds0);
          m0 = m\<lparr>fClipMode := kIgnoreClip_StencilClipMode\<rparr>;
          op = getOp e;
          found = (if getType e = kRect_Type
                   then Some (None, kNoRestriction_StencilSupport, False)
                   else (case getPathRenderer env drawState e kStencilOnly_DrawType of
                           None \<Rightarrow> None
                         | Some (r, support) \<Rightarrow> Some (Some r, support, isInverseFilled e)))
      in case found of
           None \<Rightarrow> (m0, False)
         | Some (pr, stencilSupport, fillInverted) \<Rightarrow>
             (let canRenderDirectToStencil = (stencilSupport = kNoRestriction_StencilSupport);
                  (canDrawDirectToClip, stencilSettings) =
                     GetClipPasses env op canRenderDirectToStencil clipBit fillInverted;
                  (ds1, m1) =
                     (if \<not> canDrawDirectToClip then
                        (if getType e = kRect_Type then
                           (let d = drawState\<lparr>stencil := gDrawToStencil\<rparr>
                            in (d, issue (Cmd_drawSimpleRect d (ElementRect e)) m0))
                         else if \<not> clipPath_isEmpty env e then
                           (case pr of
                              None \<Rightarrow> (drawState, m0)
                            | Some r \<Rightarrow>
                                if canRenderDirectToStencil then
                                  (let d = drawState\<lparr>stencil := gDrawToStencil\<rparr>
                                   in (d, issue (Cmd_drawPath r d e False) m0))
                                else (drawState, issue (Cmd_stencilPath r drawState e) m0))
                         else (drawState, m0))
                      else (drawState, m0));
                  m2 = m1\<lparr>fClipMode := kModifyClip_StencilClipMode\<rparr>
              in (stencilPasses canDrawDirectToClip e pr clipSpaceIBounds ds1 stencilSettings m2,
                  True)))"

fun stencilLoop ::
  "Env \<Rightarrow> GrRenderTarget \<Rightarrow> SkIRect \<Rightarrow> SkIPoint \<Rightarrow> int \<Rightarrow> Element list \<Rightarrow> GrClipMaskManager
     \<Rightarrow> GrClipMaskManager \<times> bool" where
  "stencilLoop env rt b off clipBit [] m = (m, True)"
| "stencilLoop env rt b off clipBit (e # es) m =
     (case stencilElement env rt b off clipBit e m of
        (m', ok) \<Rightarrow> if ok then stencilLoop env rt b off clipBit es m' else (m', False))"

text \<open>
  \<^verbatim>\<open>GrClipMaskManager::createStencilClipMask\<close>: the manager afterwards and the returned
  flag. \<open>clipBit\<close> is \<^verbatim>\<open>1 << (bits - 1)\<close>.
\<close>

definition createStencilClipMask ::
  "Env \<Rightarrow> GrClipMaskManager \<Rightarrow> GrRenderTarget \<Rightarrow> int \<Rightarrow> InitialState \<Rightarrow> Element list \<Rightarrow> SkIRect
     \<Rightarrow> SkIPoint \<Rightarrow> GrClipMaskManager \<times> bool" where
  "createStencilClipMask env m rt elementsGenID init els clipSpaceIBounds clipSpaceToStencilOffset =
     (case getStencilBuffer rt of
        None \<Rightarrow> (m, False)
      | Some bits \<Rightarrow>
          (let finish = (\<lambda>m'. (m'\<lparr>fCurrClipMaskType := kStencil_ClipMaskType,
                                    fClipMode := kRespectClip_StencilClipMode\<rparr>, True))
           in if mustRenderClip m elementsGenID clipSpaceIBounds clipSpaceToStencilOffset then
                (let m1 = setLastClip elementsGenID clipSpaceIBounds clipSpaceToStencilOffset m;
                     stencilSpaceIBounds = SkIRect_offset clipSpaceIBounds clipSpaceToStencilOffset;
                     clipBit = (2 :: int) ^ nat (bits - 1);
                     m2 = issue (Cmd_clearStencilClip stencilSpaceIBounds
                                   (init = kAllIn_InitialState) rt) m1;
                     (m3, ok) = stencilLoop env rt clipSpaceIBounds clipSpaceToStencilOffset
                                  clipBit els m2
                 in if ok then finish m3 else (m3, False))
              else finish m))"

subsection \<open>Choosing the representation\<close>

text \<open>
  What \<^verbatim>\<open>setupClipping\<close> leaves behind: the returned flag, the manager, the draw state,
  the two guards and the scissor state (\<open>None\<close> while no scissor rectangle is set).
\<close>

record ClipSetup =
  cs_ok :: bool
  cs_mgr :: GrClipMaskManager
  cs_drawState :: GrDrawState
  cs_are :: AutoRestoreEffects
  cs_ars :: "GrStencilSettings option"
  cs_scissorState :: "SkIRect option"

text \<open>The three ways \<^verbatim>\<open>setupClipping\<close> ends after the reduction.\<close>

definition finishWithStencil ::
  "Env \<Rightarrow> bool \<Rightarrow> GrClipMaskManager \<Rightarrow> GrDrawState \<Rightarrow> AutoRestoreEffects
     \<Rightarrow> GrStencilSettings option \<Rightarrow> SkIRect option \<Rightarrow> ClipSetup" where
  "finishWithStencil env r m ds a s sc =
     (let (ds', s') = setDrawStateStencil env m ds s
      in \<lparr>cs_ok = r, cs_mgr = m, cs_drawState = ds', cs_are = a, cs_ars = s', cs_scissorState = sc\<rparr>)"

text \<open>
  The stencil fallback at the end of \<^verbatim>\<open>setupClipping\<close>: the cache is reset, the
  stencil mask is built (its returned flag is not looked at), the scissor is set to the
  bounds, and the call returns \<^verbatim>\<open>true\<close>.
\<close>

definition stencilFallback ::
  "Env \<Rightarrow> GrClipMaskManager \<Rightarrow> GrDrawState \<Rightarrow> AutoRestoreEffects \<Rightarrow> GrStencilSettings option
     \<Rightarrow> GrClipData \<Rightarrow> Reduced \<Rightarrow> ClipSetup" where
  "stencilFallback env m ds a s clipDataIn red =
     (let m1 = m\<lparr>fAACache := cache_reset (fAACache m)\<rparr>;
          clipSpaceToStencilSpaceOffset = SkIPoint_neg (fOrigin clipDataIn);
          (m2, created) = createStencilClipMask env m1 (renderTarget ds) (r_genID red)
                            (r_initialState red) (r_elements red) (r_clipSpaceIBounds red)
                            clipSpaceToStencilSpaceOffset;
          scissorSpaceIBounds = SkIRect_offset (r_clipSpaceIBounds red) clipSpaceToStencilSpaceOffset
      in finishWithStencil env True m2 ds a s (Some scissorSpaceIBounds))"

text \<open>
  The alpha-mask attempt (\<^verbatim>\<open>#if GR_AA_CLIP\<close>): software or GPU construction, chosen by
  \<^verbatim>\<open>useSWOnlyPath\<close>.
\<close>

definition createMask ::
  "Env \<Rightarrow> GrClipMaskManager \<Rightarrow> GrDrawState \<Rightarrow> Reduced \<Rightarrow> GrClipMaskManager \<times> GrTexture option" where
  "createMask env m ds red =
     (if useSWOnlyPath env ds (r_elements red)
      then createSoftwareClipMask env m (r_genID red) (r_initialState red) (r_elements red)
             (r_clipSpaceIBounds red)
      else createAlphaClipMask env m (r_genID red) (r_initialState red) (r_elements red)
             (r_clipSpaceIBounds red))"

text \<open>
  The first statements of \<^verbatim>\<open>setupClipping\<close>: the mask type is reset, and a manager
  that respected the stencil clip drops to ignoring it.
\<close>

definition beginSetup :: "GrClipMaskManager \<Rightarrow> GrClipMaskManager" where
  "beginSetup m =
     m\<lparr>fCurrClipMaskType := kNone_ClipMaskType,
       fClipMode := (if fClipMode m = kRespectClip_StencilClipMode
                     then kIgnoreClip_StencilClipMode else fClipMode m)\<rparr>"

text \<open>
  \<^verbatim>\<open>GrClipMaskManager::setupClipping\<close>. \<^verbatim>\<open>SkASSERT(rt)\<close>: the draw state has a
  render target. The branches are, in the order of the source: clipping ignored from the
  start; an empty reduction with initial state other than "all in" (\<^verbatim>\<open>return false\<close>);
  an empty reduction whose bounds are the target's (clipping ignored); at most four
  elements and either none or all installed as clip effects (\<open>sc'\<close> is the scissor state
  after \<^verbatim>\<open>scissorState->set\<close>, when it is called); the alpha mask; the stencil fallback.
  \<^verbatim>\<open>installClipEffects\<close> is called only when the list is not empty and
  \<^verbatim>\<open>requiresAA\<close> holds, as the short-circuit operators of the source have it.
\<close>

definition setupClipping ::
  "Env \<Rightarrow> GrClipMaskManager \<Rightarrow> GrDrawState \<Rightarrow> AutoRestoreEffects \<Rightarrow> GrStencilSettings option
     \<Rightarrow> SkIRect option \<Rightarrow> GrClipData \<Rightarrow> SkRect option \<Rightarrow> ClipSetup" where
  "setupClipping env m ds a s sc clipDataIn devBounds =
     (let m0 = beginSetup m;
          rt = renderTarget ds;
          ignoreClip0 = (\<not> kClip_StateBit ds \<or> isWideOpen env (fClipStack clipDataIn));
          clipSpaceRTIBounds =
            SkIRect_offset (SkIRect_MakeWH (rt_width rt) (rt_height rt)) (fOrigin clipDataIn);
          red = ReduceClipStack env (fClipStack clipDataIn) clipSpaceRTIBounds
      in if ignoreClip0 then finishWithStencil env True m0 ds a s sc
         else if r_elements red = [] \<and> r_initialState red \<noteq> kAllIn_InitialState
         then \<lparr>cs_ok = False, cs_mgr = m0, cs_drawState = ds, cs_are = a, cs_ars = s,
               cs_scissorState = sc\<rparr>
         else if r_elements red = [] \<and> r_clipSpaceIBounds red = clipSpaceRTIBounds
         then finishWithStencil env True m0 ds a s sc
         else
           (let scissorSpaceIBounds =
                  SkIRect_offset (r_clipSpaceIBounds red) (SkIPoint_neg (fOrigin clipDataIn));
                needScissor = (case devBounds of None \<Rightarrow> True
                               | Some d \<Rightarrow> \<not> SkRect_Make_contains env scissorSpaceIBounds d);
                sc' = (if needScissor then Some scissorSpaceIBounds else sc);
                (ds1, a1, installed) =
                   (if int (length (r_elements red)) \<le> 4 \<and> r_elements red \<noteq> [] \<and> r_requiresAA red
                    then installClipEffects env ds a (r_elements red)
                           (SkIPoint_neg (fOrigin clipDataIn)) devBounds
                    else (ds, a, False))
            in if int (length (r_elements red)) \<le> 4 \<and> (r_elements red = [] \<or> installed)
               then finishWithStencil env True m0 ds1 a1 s sc'
               else if numSamples rt = 0 \<and> r_requiresAA red then
                 (case createMask env m0 ds1 red of
                    (m1, Some result) \<Rightarrow>
                      (let rtSpaceMaskBounds =
                             SkIRect_offset (r_clipSpaceIBounds red)
                                            (SkIPoint_neg (fOrigin clipDataIn))
                       in finishWithStencil env True m1
                            (setup_drawstate_aaclip rtSpaceMaskBounds ds1 result) a1 s sc)
                  | (m1, None) \<Rightarrow> stencilFallback env m1 ds1 a1 s clipDataIn red)
               else stencilFallback env m0 ds1 a1 s clipDataIn red))"

section \<open>Vocabulary of the proofs\<close>

text \<open>
  \<open>onlyDraws m m'\<close>: going from \<open>m\<close> to \<open>m'\<close> the manager left the mask cache alone and
  at most sent further commands to the clip target.
\<close>

definition onlyDraws :: "GrClipMaskManager \<Rightarrow> GrClipMaskManager \<Rightarrow> bool" where
  "onlyDraws m m' \<longleftrightarrow> fAACache m' = fAACache m \<and> prefix (fClipTarget m) (fClipTarget m')"

section \<open>Concrete inputs\<close>

text \<open>
  A 200 by 200 render target without multisampling and with an 8-bit stencil buffer, a
  draw state on it with clipping enabled, a manager in its initial state, and an
  environment in which every collaborator succeeds. The reduction of the environment
  returns the stack as it is, with initial state "all in" and the bounds it was given, and
  asks for anti-aliasing when some element does.
\<close>

definition demo_rt :: GrRenderTarget where
  "demo_rt = \<lparr>rt_id = 0, rt_width = 200, rt_height = 200, numSamples = 0,
              getStencilBuffer = Some 8\<rparr>"

definition demo_ds :: GrDrawState where
  "demo_ds = (GrDrawState_ctor MatIdentity demo_rt)\<lparr>kClip_StateBit := True\<rparr>"

definition demo_mgr :: GrClipMaskManager where
  "demo_mgr = \<lparr>fCurrClipMaskType = kNone_ClipMaskType, fClipMode = kIgnoreClip_StencilClipMode,
               fAACache = None, fClipTarget = [], fLastClip = None\<rparr>"

definition demo_texture :: "GrSurfaceDesc \<Rightarrow> GrTexture" where
  "demo_texture d =
     \<lparr>tex_id = 1, tex_width = fWidth d, tex_height = fHeight d,
      asRenderTarget = \<lparr>rt_id = 1, rt_width = fWidth d, rt_height = fHeight d, numSamples = 0,
                        getStencilBuffer = None\<rparr>\<rparr>"

definition demo_reduce :: "SkClipStack \<Rightarrow> SkIRect \<Rightarrow> Reduced" where
  "demo_reduce st b =
     \<lparr>r_elements = st, r_genID = 1, r_initialState = kAllIn_InitialState,
      r_clipSpaceIBounds = b, r_requiresAA = list_ex isAA st\<rparr>"

definition demo_env :: Env where
  "demo_env =
     \<lparr>getPathRenderer = (\<lambda>ds e t. Some (0, kNoRestriction_StencilSupport)),
      Element_contains = (\<lambda>e r. False),
      SkRect_Make_contains = (\<lambda>i r. False),
      Element_getBounds_roundOut = (\<lambda>e p. SkIRect_MakeWH 10 10),
      clipPath_isEmpty = (\<lambda>e. False),
      GrConvexPolyEffect_Create_path = (\<lambda>t e p. True),
      GrRRectEffect_Create = (\<lambda>t e p. True),
      GrConvexPolyEffect_Create_rect = (\<lambda>t e p. True),
      isConfigRenderable_Alpha_8 = True,
      refScratchTexture = (\<lambda>d. Some (demo_texture d)),
      twoSidedStencilSupport = True,
      GetClipPasses = (\<lambda>op direct clipBit inv. (True, [kStencilInElement])),
      isWideOpen = (\<lambda>st. False),
      ReduceClipStack = demo_reduce\<rparr>"

definition demo_clip :: "Element list \<Rightarrow> GrClipData" where
  "demo_clip st = \<lparr>fClipStack = st, fOrigin = \<lparr>fX = 0, fY = 0\<rparr>\<rparr>"

definition demo_element :: "SkRegion_Op \<Rightarrow> Element_Type \<Rightarrow> bool \<Rightarrow> Element" where
  "demo_element op t aa = \<lparr>getOp = op, getType = t, isAA = aa, isInverseFilled = False, geom = 0\<rparr>"

text \<open>
  The same environment, except that the renderer chain finds a renderer for the caller's
  draw state and none for a draw state that draws coverage (as the local draw states of
  the mask construction do).
\<close>

definition demo_env_no_mask_renderer :: Env where
  "demo_env_no_mask_renderer =
     demo_env\<lparr>getPathRenderer :=
       (\<lambda>d e t. if kCoverageDrawing_StateBit d then None
                else Some (0, kNoRestriction_StencilSupport))\<rparr>"

section \<open>Blend coefficients of the set operators\<close>

text \<open>
  Claim C3, as stated, at the operator intersect: the claim has the source coefficient
  "destination alpha" (\<^verbatim>\<open>kDA_GrBlendCoeff\<close>) with destination coefficient zero; the code
  installs the destination colour \<^verbatim>\<open>kDC_GrBlendCoeff\<close>.
\<close>

theorem blendcoeffs_intersect_not_dst_alpha:
  "(srcBlend (setup_boolean_blendcoeffs kIntersect_Op demo_ds),
    dstBlend (setup_boolean_blendcoeffs kIntersect_Op demo_ds))
   \<noteq> (kDA_GrBlendCoeff, kZero_GrBlendCoeff)"
  by (simp add: setBlendFunc_def)

text \<open>
  Claim C3, amended: the coefficients installed for each set operator are
  replace: (one, zero); intersect: (destination colour, zero); union: (one, one minus
  source colour); xor: (one minus destination colour, one minus source colour);
  difference: (zero, one minus source colour); reverse difference: (one minus destination
  colour, zero).
\<close>

theorem setup_boolean_blendcoeffs_table:
  "(srcBlend (setup_boolean_blendcoeffs kReplace_Op ds),
    dstBlend (setup_boolean_blendcoeffs kReplace_Op ds)) = (kOne_GrBlendCoeff, kZero_GrBlendCoeff)
   \<and> (srcBlend (setup_boolean_blendcoeffs kIntersect_Op ds),
      dstBlend (setup_boolean_blendcoeffs kIntersect_Op ds)) = (kDC_GrBlendCoeff, kZero_GrBlendCoeff)
   \<and> (srcBlend (setup_boolean_blendcoeffs kUnion_Op ds),
      dstBlend (setup_boolean_blendcoeffs kUnion_Op ds)) = (kOne_GrBlendCoeff, kISC_GrBlendCoeff)
   \<and> (srcBlend (setup_boolean_blendcoeffs kXOR_Op ds),
      dstBlend (setup_boolean_blendcoeffs kXOR_Op ds)) = (kIDC_GrBlendCoeff, kISC_GrBlendCoeff)
   \<and> (srcBlend (setup_boolean_blendcoeffs kDifference_Op ds),
      dstBlend (setup_boolean_blendcoeffs kDifference_Op ds)) = (kZero_GrBlendCoeff, kISC_GrBlendCoeff)
   \<and> (srcBlend (setup_boolean_blendcoeffs kReverseDifference_Op ds),
      dstBlend (setup_boolean_blendcoeffs kReverseDifference_Op ds))
     = (kIDC_GrBlendCoeff, kZero_GrBlendCoeff)"
  by (simp add: setBlendFunc_def)

section \<open>Stencil settings\<close>

text \<open>
  Claim C9: in Modify-clip mode \<^verbatim>\<open>adjustStencilParams\<close> returns the settings it was
  given, whatever they are, whatever the bit count and the two-sided capability.
\<close>

theorem adjustStencilParams_modify_unchanged:
  "adjustStencilParams twoSided settings kModifyClip_StencilClipMode stencilBitCnt = settings"
  by (simp add: adjustStencilParams_def)

text \<open>
  In Ignore-clip mode the front face gets the function of row 0 of the table when its
  function is clip-relative, and its three masks are cut down to the user bits.
\<close>

lemma adjustStencilParams_ignore_front:
  "kFront_Face (adjustStencilParams twoSided settings kIgnoreClip_StencilClipMode n)
     = (kFront_Face settings)
         \<lparr>func := (if isClipFunc (func (kFront_Face settings))
                   then gSpecialToBasicStencilFunc ! 0 ! clipFuncIndex (func (kFront_Face settings))
                   else func (kFront_Face settings)),
          writeMask := ucast (ucast (writeMask (kFront_Face settings))
                               AND ((push_bit (nat (n - 1)) 1 :: 32 word) - 1)),
          funcMask := ucast (ucast (funcMask (kFront_Face settings))
                               AND ((push_bit (nat (n - 1)) 1 :: 32 word) - 1)),
          funcRef := ucast (ucast (funcRef (kFront_Face settings))
                               AND ((push_bit (nat (n - 1)) 1 :: 32 word) - 1))\<rparr>"
  by (simp add: adjustStencilParams_def adjustFace_def Let_def copyFrontSettingsToBack_def)

lemma gSpecialToBasicStencilFunc_row0:
  "gSpecialToBasicStencilFunc ! 0 ! clipFuncIndex kAlwaysIfInClip_StencilFunc = kAlways_StencilFunc"
  "gSpecialToBasicStencilFunc ! 0 ! clipFuncIndex kEqualIfInClip_StencilFunc = kEqual_StencilFunc"
  "gSpecialToBasicStencilFunc ! 0 ! clipFuncIndex kLessIfInClip_StencilFunc = kLess_StencilFunc"
  "gSpecialToBasicStencilFunc ! 0 ! clipFuncIndex kLEqualIfInClip_StencilFunc = kLEqual_StencilFunc"
  "gSpecialToBasicStencilFunc ! 0 ! clipFuncIndex kNonZeroIfInClip_StencilFunc
     = kNotEqual_StencilFunc"
  by (simp_all add: gSpecialToBasicStencilFunc_def)

text \<open>
  Claim C6, what the code does where the claim has the reference forced to zero: in
  Ignore-clip mode a front face with the function \<^verbatim>\<open>kNonZeroIfInClip_StencilFunc\<close>
  ends with the function \<^verbatim>\<open>kNotEqual_StencilFunc\<close> and with the reference it had,
  cut down to the user bits.
\<close>

theorem adjustStencilParams_ignore_nonzero_keeps_ref:
  assumes "func (kFront_Face settings) = kNonZeroIfInClip_StencilFunc"
  shows "func (kFront_Face (adjustStencilParams twoSided settings kIgnoreClip_StencilClipMode n))
           = kNotEqual_StencilFunc
       \<and> funcRef (kFront_Face (adjustStencilParams twoSided settings kIgnoreClip_StencilClipMode n))
           = ucast (ucast (funcRef (kFront_Face settings))
                      AND ((push_bit (nat (n - 1)) 1 :: 32 word) - 1))"
  using assms
  by (simp add: adjustStencilParams_def adjustFace_def gSpecialToBasicStencilFunc_def Let_def
      copyFrontSettingsToBack_def)

text \<open>
  Claim C6 at a concrete input: eight stencil bits, reference 5. The reference stays 5,
  so the test compares the stencil value with 5 and not with 0.
\<close>

theorem adjustStencilParams_ignore_nonzero_ref_5:
  "func (kFront_Face (adjustStencilParams True
           (SAME_STENCIL kKeep_StencilOp kKeep_StencilOp kNonZeroIfInClip_StencilFunc
              0xffff 0x0005 0xffff) kIgnoreClip_StencilClipMode 8)) = kNotEqual_StencilFunc
   \<and> funcRef (kFront_Face (adjustStencilParams True
           (SAME_STENCIL kKeep_StencilOp kKeep_StencilOp kNonZeroIfInClip_StencilFunc
              0xffff 0x0005 0xffff) kIgnoreClip_StencilClipMode 8)) = 5"
  using adjustStencilParams_ignore_nonzero_keeps_ref
          [of "SAME_STENCIL kKeep_StencilOp kKeep_StencilOp kNonZeroIfInClip_StencilFunc
                 0xffff 0x0005 0xffff" True 8]
  by (simp add: SAME_STENCIL_def Let_def)

section \<open>The fast path\<close>

lemma installClipEffect_None_iff:
  "installClipEffect env off b e ds = None \<longleftrightarrow> yieldsNoProcessor env (renderTarget ds) off b e"
  by (cases "getOp e")
     (auto simp: installClipEffect_def yieldsNoProcessor_def unsupportedOp_def
        containsDrawBounds_def aaOnMultisampled_def notRepresentable_def Let_def
        split: option.splits)

lemma installClipEffect_Some_cases:
  "installClipEffect env off b e ds = Some ds' \<Longrightarrow>
     ds' = ds \<or> (\<exists>fp. ds' = ds\<lparr>coverageProcessors := coverageProcessors ds @ [fp]\<rparr>)"
  by (cases "getOp e")
     (auto simp: installClipEffect_def Let_def addCoverageProcessor_def
        split: option.splits if_splits)

lemma installClipEffect_Some:
  assumes "installClipEffect env off b e ds = Some ds'"
  shows "\<exists>ps. ds' = ds\<lparr>coverageProcessors := coverageProcessors ds @ ps\<rparr>"
proof -
  from installClipEffect_Some_cases [OF assms] show ?thesis
  proof
    assume "ds' = ds"
    then have "ds' = ds\<lparr>coverageProcessors := coverageProcessors ds @ []\<rparr>" by simp
    then show ?thesis by blast
  next
    assume "\<exists>fp. ds' = ds\<lparr>coverageProcessors := coverageProcessors ds @ [fp]\<rparr>"
    then show ?thesis by blast
  qed
qed

text \<open>
  The loop only appends coverage processors, and it stops with \<^verbatim>\<open>failed\<close> set exactly
  when some element yields no processor.
\<close>

lemma installLoop_result:
  "installLoop env off b els ds = (ds1, failed) \<Longrightarrow>
     (\<exists>ps. ds1 = ds\<lparr>coverageProcessors := coverageProcessors ds @ ps\<rparr>) \<and>
     (failed \<longleftrightarrow> (\<exists>e\<in>set els. yieldsNoProcessor env (renderTarget ds) off b e))"
proof (induction els arbitrary: ds)
  case Nil
  then show ?case by (auto intro: exI [of _ "[]"])
next
  case (Cons e es)
  show ?case
  proof (cases "installClipEffect env off b e ds")
    case None
    with Cons.prems have "ds1 = ds" "failed" by auto
    moreover from None have "yieldsNoProcessor env (renderTarget ds) off b e"
      by (simp add: installClipEffect_None_iff)
    ultimately show ?thesis by (auto intro: exI [of _ "[]"])
  next
    case (Some ds')
    then obtain ps where ps: "ds' = ds\<lparr>coverageProcessors := coverageProcessors ds @ ps\<rparr>"
      using installClipEffect_Some by blast
    from Some Cons.prems have "installLoop env off b es ds' = (ds1, failed)" by simp
    from Cons.IH [OF this] obtain qs where
      qs: "ds1 = ds'\<lparr>coverageProcessors := coverageProcessors ds' @ qs\<rparr>"
      and f: "failed \<longleftrightarrow> (\<exists>e\<in>set es. yieldsNoProcessor env (renderTarget ds') off b e)"
      by blast
    from Some have "\<not> yieldsNoProcessor env (renderTarget ds) off b e"
      using installClipEffect_None_iff [of env off b e ds] by simp
    moreover have "renderTarget ds' = renderTarget ds" using ps by simp
    moreover have "ds1 = ds\<lparr>coverageProcessors := coverageProcessors ds @ (ps @ qs)\<rparr>"
      using ps qs by simp
    ultimately show ?thesis using f by auto
  qed
qed

text \<open>
  Claim C8: \<^verbatim>\<open>installClipEffects\<close> is all-or-nothing. If some element yields no
  coverage processor (unsupported operator, coverage anti-aliasing on a multisampled
  target, or a shape no processor represents), the call returns failure, the draw state is
  the one it was called with (every processor added before the failure is gone), and the
  guard is disarmed.
\<close>

theorem installClipEffects_all_or_nothing:
  assumes "\<exists>e\<in>set els. yieldsNoProcessor env (renderTarget ds) off (boundsInClipSpace off db) e"
  shows "installClipEffects env ds a els off db = (ds, None, False)"
proof -
  obtain ds1 failed where l: "installLoop env off (boundsInClipSpace off db) els ds = (ds1, failed)"
    by (cases "installLoop env off (boundsInClipSpace off db) els ds") auto
  from installLoop_result [OF l] assms obtain ps where
    "ds1 = ds\<lparr>coverageProcessors := coverageProcessors ds @ ps\<rparr>" and "failed" by blast
  then show ?thesis using l
    by (simp add: installClipEffects_def AutoRestoreEffects_set_def
        AutoRestoreEffects_set_NULL_def Let_def)
qed

text \<open>
  Claim C8 at a concrete input: an anti-aliased intersect rectangle followed by an
  anti-aliased union rectangle. The loop installs a processor for the first element and
  fails on the second; the call returns the draw state without that processor.
\<close>

theorem installClipEffects_all_or_nothing_witness:
  "fst (installLoop demo_env \<lparr>fX = 0, fY = 0\<rparr> None
          [demo_element kIntersect_Op kRect_Type True, demo_element kUnion_Op kRect_Type True]
          demo_ds)
     = demo_ds\<lparr>coverageProcessors :=
         [ConvexPolyEffect_Rect kFillAA_GrProcessorEdgeType
            (demo_element kIntersect_Op kRect_Type True) \<lparr>fX = 0, fY = 0\<rparr>]\<rparr>
   \<and> installClipEffects demo_env demo_ds None
         [demo_element kIntersect_Op kRect_Type True, demo_element kUnion_Op kRect_Type True]
         \<lparr>fX = 0, fY = 0\<rparr> None
       = (demo_ds, None, False)"
proof -
  have h: "\<exists>e\<in>set [demo_element kIntersect_Op kRect_Type True,
                     demo_element kUnion_Op kRect_Type True].
             yieldsNoProcessor demo_env (renderTarget demo_ds) \<lparr>fX = 0, fY = 0\<rparr>
               (boundsInClipSpace \<lparr>fX = 0, fY = 0\<rparr> None) e"
    by (simp add: yieldsNoProcessor_def unsupportedOp_def demo_element_def)
  have l: "fst (installLoop demo_env \<lparr>fX = 0, fY = 0\<rparr> None
          [demo_element kIntersect_Op kRect_Type True, demo_element kUnion_Op kRect_Type True]
          demo_ds)
     = demo_ds\<lparr>coverageProcessors :=
         [ConvexPolyEffect_Rect kFillAA_GrProcessorEdgeType
            (demo_element kIntersect_Op kRect_Type True) \<lparr>fX = 0, fY = 0\<rparr>]\<rparr>"
    by code_simp
  from l installClipEffects_all_or_nothing [OF h, of None] show ?thesis by simp
qed

section \<open>Choosing the representation: facts about \<^verbatim>\<open>setupClipping\<close>\<close>

lemma finishWithStencil_simps:
  "cs_ok (finishWithStencil env r m ds a s sc) = r"
  "cs_mgr (finishWithStencil env r m ds a s sc) = m"
  "cs_are (finishWithStencil env r m ds a s sc) = a"
  "cs_scissorState (finishWithStencil env r m ds a s sc) = sc"
  "cs_drawState (finishWithStencil env r m ds a s sc) = fst (setDrawStateStencil env m ds s)"
  "cs_ars (finishWithStencil env r m ds a s sc) = snd (setDrawStateStencil env m ds s)"
  by (simp_all add: finishWithStencil_def split: prod.splits)

lemma setDrawStateStencil_processors:
  "coverageProcessors (fst (setDrawStateStencil env m ds s)) = coverageProcessors ds"
  "colorProcessors (fst (setDrawStateStencil env m ds s)) = colorProcessors ds"
  by (simp_all add: setDrawStateStencil_def Let_def)

lemma beginSetup_simps:
  "fCurrClipMaskType (beginSetup m) = kNone_ClipMaskType"
  "fAACache (beginSetup m) = fAACache m"
  "fClipTarget (beginSetup m) = fClipTarget m"
  "fLastClip (beginSetup m) = fLastClip m"
  by (simp_all add: beginSetup_def)

text \<open>
  Claim C2: when clipping is enabled, the stack is not wide open and the reduction yields no
  element, then with initial state "all out" \<^verbatim>\<open>setupClipping\<close> returns failure, and with
  initial state "all in" and bounds equal to the render-target bounds (in clip space) it
  returns success and treats the clip as absent: the scissor state, both processor chains
  and the effects guard are as they were, and the manager is in the state the call starts
  from (mask type none, mask cache and command log untouched).
\<close>

theorem setupClipping_empty_reduction:
  assumes clip: "kClip_StateBit ds" and nopen: "\<not> isWideOpen env (fClipStack cd)"
    and rtb: "rtb = SkIRect_offset (SkIRect_MakeWH (rt_width (renderTarget ds))
                      (rt_height (renderTarget ds))) (fOrigin cd)"
    and red: "red = ReduceClipStack env (fClipStack cd) rtb"
    and empty: "r_elements red = []"
    and cs: "cs = setupClipping env m ds a s sc cd devBounds"
  shows "(r_initialState red = kAllOut_InitialState \<longrightarrow> \<not> cs_ok cs)
       \<and> (r_initialState red = kAllIn_InitialState \<and> r_clipSpaceIBounds red = rtb \<longrightarrow>
            cs_ok cs \<and> cs_scissorState cs = sc
            \<and> coverageProcessors (cs_drawState cs) = coverageProcessors ds
            \<and> colorProcessors (cs_drawState cs) = colorProcessors ds
            \<and> cs_are cs = a
            \<and> cs_mgr cs = beginSetup m
            \<and> fCurrClipMaskType (cs_mgr cs) = kNone_ClipMaskType
            \<and> fAACache (cs_mgr cs) = fAACache m
            \<and> fClipTarget (cs_mgr cs) = fClipTarget m)"
  using clip nopen empty
  unfolding cs setupClipping_def red [symmetric] rtb [symmetric] Let_def
  by (simp add: finishWithStencil_simps setDrawStateStencil_processors beginSetup_simps)

text \<open>
  Claim C2 at concrete inputs: an empty reduction with initial state "all out" fails; an
  empty reduction with initial state "all in" and the bounds of the 200 by 200 target
  succeeds and changes nothing.
\<close>

theorem setupClipping_empty_reduction_witness:
  "\<not> cs_ok (setupClipping
        (demo_env\<lparr>ReduceClipStack :=
            (\<lambda>st b. (demo_reduce st b)\<lparr>r_initialState := kAllOut_InitialState\<rparr>)\<rparr>)
        demo_mgr demo_ds None None None (demo_clip []) None)
   \<and> cs_ok (setupClipping demo_env demo_mgr demo_ds None None None (demo_clip []) None)
   \<and> cs_scissorState (setupClipping demo_env demo_mgr demo_ds None None None (demo_clip []) None)
       = None
   \<and> coverageProcessors
       (cs_drawState (setupClipping demo_env demo_mgr demo_ds None None None (demo_clip []) None))
       = []
   \<and> cs_mgr (setupClipping demo_env demo_mgr demo_ds None None None (demo_clip []) None)
       = demo_mgr"
proof -
  let ?envOut = "demo_env\<lparr>ReduceClipStack :=
            (\<lambda>st b. (demo_reduce st b)\<lparr>r_initialState := kAllOut_InitialState\<rparr>)\<rparr>"
  let ?rtb = "SkIRect_offset (SkIRect_MakeWH (rt_width (renderTarget demo_ds))
                      (rt_height (renderTarget demo_ds))) (fOrigin (demo_clip []))"
  have clip: "kClip_StateBit demo_ds" by code_simp
  have o1: "\<not> isWideOpen ?envOut (fClipStack (demo_clip []))" by code_simp
  have o2: "\<not> isWideOpen demo_env (fClipStack (demo_clip []))" by code_simp
  have e1: "r_elements (ReduceClipStack ?envOut (fClipStack (demo_clip [])) ?rtb) = []"
    by code_simp
  have e2: "r_elements (ReduceClipStack demo_env (fClipStack (demo_clip [])) ?rtb) = []"
    by code_simp
  have i1: "r_initialState (ReduceClipStack ?envOut (fClipStack (demo_clip [])) ?rtb)
              = kAllOut_InitialState"
    by code_simp
  have i2: "r_initialState (ReduceClipStack demo_env (fClipStack (demo_clip [])) ?rtb)
              = kAllIn_InitialState
            \<and> r_clipSpaceIBounds (ReduceClipStack demo_env (fClipStack (demo_clip [])) ?rtb) = ?rtb"
    by code_simp
  have b: "beginSetup demo_mgr = demo_mgr" "coverageProcessors demo_ds = []"
    by code_simp+
  have A: "\<not> cs_ok (setupClipping ?envOut demo_mgr demo_ds None None None (demo_clip []) None)"
    using setupClipping_empty_reduction [OF clip o1 refl refl e1 refl, of demo_mgr None None None None] i1
    by simp
  show ?thesis
    using A setupClipping_empty_reduction [OF clip o2 refl refl e2 refl, of demo_mgr None None None None]
      i2 b
    by simp
qed

text \<open>
  Claim C4, as stated, at two concrete inputs. First: a reduction to one rectangle that
  asks for no anti-aliasing. Every element could be expressed as a coverage processor
  (\<^verbatim>\<open>installClipEffects\<close> succeeds on these arguments), yet \<^verbatim>\<open>setupClipping\<close> does not
  try: it installs no processor and builds the stencil mask. Second: an anti-aliased union
  rectangle on a target without multisampling. No element needs coverage anti-aliasing on
  a multisampled target and the shape is representable, yet the attempt fails, on the
  operator.
\<close>

theorem fast_path_counterexample:
  "(snd (snd (installClipEffects demo_env demo_ds None
             [demo_element kIntersect_Op kRect_Type False] \<lparr>fX = 0, fY = 0\<rparr> None))
    \<and> coverageProcessors (cs_drawState (setupClipping demo_env demo_mgr demo_ds None None None
             (demo_clip [demo_element kIntersect_Op kRect_Type False]) None)) = []
    \<and> fCurrClipMaskType (cs_mgr (setupClipping demo_env demo_mgr demo_ds None None None
             (demo_clip [demo_element kIntersect_Op kRect_Type False]) None))
        = kStencil_ClipMaskType)
   \<and> (r_requiresAA (demo_reduce [demo_element kUnion_Op kRect_Type True] (SkIRect_MakeWH 200 200))
      \<and> \<not> aaOnMultisampled demo_rt (demo_element kUnion_Op kRect_Type True)
      \<and> \<not> notRepresentable demo_env \<lparr>fX = 0, fY = 0\<rparr> (demo_element kUnion_Op kRect_Type True)
      \<and> installClipEffects demo_env demo_ds None
             [demo_element kUnion_Op kRect_Type True] \<lparr>fX = 0, fY = 0\<rparr> None
          = (demo_ds, None, False))"
  by code_simp

text \<open>
  Claim C4, amended: when clipping is enabled, the stack is not wide open, and the reduction
  yields between one and four elements and asks for anti-aliasing, \<^verbatim>\<open>setupClipping\<close>
  calls \<^verbatim>\<open>installClipEffects\<close> on the reduced elements. That attempt fails only when
  some element has an operator other than replace, intersect and difference, or is not
  skipped and either asks for coverage anti-aliasing on a multisampled target or has a
  shape no rectangle, rounded-rectangle or convex-polygon processor represents. When it
  succeeds, \<^verbatim>\<open>setupClipping\<close> returns success with the processors installed and without
  building a mask.
\<close>

theorem setupClipping_fast_path:
  assumes clip: "kClip_StateBit ds" and nopen: "\<not> isWideOpen env (fClipStack cd)"
    and red: "red = ReduceClipStack env (fClipStack cd)
                 (SkIRect_offset (SkIRect_MakeWH (rt_width (renderTarget ds))
                    (rt_height (renderTarget ds))) (fOrigin cd))"
    and ne: "r_elements red \<noteq> []" and le: "length (r_elements red) \<le> 4"
    and aa: "r_requiresAA red"
    and inst: "installClipEffects env ds a (r_elements red) (SkIPoint_neg (fOrigin cd)) devBounds
                 = (ds1, a1, installed)"
    and cs: "cs = setupClipping env m ds a s sc cd devBounds"
  shows "(installed \<longleftrightarrow>
            \<not> (\<exists>e\<in>set (r_elements red).
                  yieldsNoProcessor env (renderTarget ds) (SkIPoint_neg (fOrigin cd))
                    (boundsInClipSpace (SkIPoint_neg (fOrigin cd)) devBounds) e))
       \<and> (installed \<longrightarrow>
            cs_ok cs \<and> coverageProcessors (cs_drawState cs) = coverageProcessors ds1
            \<and> cs_are cs = a1
            \<and> fCurrClipMaskType (cs_mgr cs) = kNone_ClipMaskType
            \<and> fAACache (cs_mgr cs) = fAACache m
            \<and> fClipTarget (cs_mgr cs) = fClipTarget m)"
proof -
  let ?off = "SkIPoint_neg (fOrigin cd)"
  let ?b = "boundsInClipSpace ?off devBounds"
  obtain dl failed where l: "installLoop env ?off ?b (r_elements red) ds = (dl, failed)"
    by (cases "installLoop env ?off ?b (r_elements red) ds") auto
  from installLoop_result [OF l] have
    f: "failed \<longleftrightarrow> (\<exists>e\<in>set (r_elements red). yieldsNoProcessor env (renderTarget ds) ?off ?b e)"
    by blast
  from inst l have "installed = (\<not> failed)"
    by (auto simp: installClipEffects_def Let_def split: prod.splits if_splits)
  with f have A: "installed \<longleftrightarrow>
      \<not> (\<exists>e\<in>set (r_elements red). yieldsNoProcessor env (renderTarget ds) ?off ?b e)" by simp
  have B: "cs_ok cs \<and> coverageProcessors (cs_drawState cs) = coverageProcessors ds1
            \<and> cs_are cs = a1
            \<and> fCurrClipMaskType (cs_mgr cs) = kNone_ClipMaskType
            \<and> fAACache (cs_mgr cs) = fAACache m
            \<and> fClipTarget (cs_mgr cs) = fClipTarget m" if i: "installed"
    using clip nopen ne le aa inst i
    unfolding cs setupClipping_def red [symmetric] Let_def
    by (simp add: finishWithStencil_simps setDrawStateStencil_processors beginSetup_simps)
  from A B show ?thesis by blast
qed

text \<open>
  Claim C4, amended, at a concrete input: an anti-aliased intersect rounded rectangle
  followed by an anti-aliased difference rounded rectangle. Both processors are installed,
  the call succeeds, and no mask is built.
\<close>

theorem setupClipping_fast_path_witness:
  "cs_ok (setupClipping demo_env demo_mgr demo_ds None None None
            (demo_clip [demo_element kIntersect_Op kRRect_Type True,
                        demo_element kDifference_Op kRRect_Type True]) None)
   \<and> coverageProcessors (cs_drawState (setupClipping demo_env demo_mgr demo_ds None None None
            (demo_clip [demo_element kIntersect_Op kRRect_Type True,
                        demo_element kDifference_Op kRRect_Type True]) None))
       = [RRectEffect kFillAA_GrProcessorEdgeType
            (demo_element kIntersect_Op kRRect_Type True) \<lparr>fX = 0, fY = 0\<rparr>,
          RRectEffect kInverseFillAA_GrProcessorEdgeType
            (demo_element kDifference_Op kRRect_Type True) \<lparr>fX = 0, fY = 0\<rparr>]
   \<and> fCurrClipMaskType (cs_mgr (setupClipping demo_env demo_mgr demo_ds None None None
            (demo_clip [demo_element kIntersect_Op kRRect_Type True,
                        demo_element kDifference_Op kRRect_Type True]) None))
       = kNone_ClipMaskType
   \<and> fClipTarget (cs_mgr (setupClipping demo_env demo_mgr demo_ds None None None
            (demo_clip [demo_element kIntersect_Op kRRect_Type True,
                        demo_element kDifference_Op kRRect_Type True]) None))
       = []"
proof -
  let ?st = "[demo_element kIntersect_Op kRRect_Type True,
              demo_element kDifference_Op kRRect_Type True]"
  let ?red = "ReduceClipStack demo_env (fClipStack (demo_clip ?st))
                 (SkIRect_offset (SkIRect_MakeWH (rt_width (renderTarget demo_ds))
                    (rt_height (renderTarget demo_ds))) (fOrigin (demo_clip ?st)))"
  let ?ds1 = "demo_ds\<lparr>coverageProcessors :=
       [RRectEffect kFillAA_GrProcessorEdgeType
            (demo_element kIntersect_Op kRRect_Type True) \<lparr>fX = 0, fY = 0\<rparr>,
        RRectEffect kInverseFillAA_GrProcessorEdgeType
            (demo_element kDifference_Op kRRect_Type True) \<lparr>fX = 0, fY = 0\<rparr>]\<rparr>"
  have clip: "kClip_StateBit demo_ds" by code_simp
  have nopen: "\<not> isWideOpen demo_env (fClipStack (demo_clip ?st))" by code_simp
  have ne: "r_elements ?red \<noteq> []" by code_simp
  have le: "length (r_elements ?red) \<le> 4" by code_simp
  have aa: "r_requiresAA ?red" by code_simp
  have inst: "installClipEffects demo_env demo_ds None (r_elements ?red)
                (SkIPoint_neg (fOrigin (demo_clip ?st))) None = (?ds1, Some (0, 0), True)"
    by code_simp
  have m: "fClipTarget demo_mgr = []" by code_simp
  show ?thesis
    using setupClipping_fast_path [OF clip nopen refl ne le aa inst refl, of demo_mgr None None] m
    by simp
qed

section \<open>The stencil fallback\<close>

lemma issue_simps:
  "fCurrClipMaskType (issue c m) = fCurrClipMaskType m"
  "fClipMode (issue c m) = fClipMode m"
  "fAACache (issue c m) = fAACache m"
  "fLastClip (issue c m) = fLastClip m"
  "fClipTarget (issue c m) = fClipTarget m @ [c]"
  by (simp_all add: issue_def)

lemma stencilPasses_type:
  "fCurrClipMaskType (stencilPasses direct e pr b d ss m) = fCurrClipMaskType m"
  by (induction ss arbitrary: m) (auto simp: Let_def issue_simps split: option.splits)

lemma stencilElement_type:
  "stencilElement env rt b off clipBit e m = (m', r) \<Longrightarrow>
     fCurrClipMaskType m' = fCurrClipMaskType m"
  by (auto simp: stencilElement_def Let_def stencilPasses_type issue_simps
      split: option.splits if_splits prod.splits)

lemma stencilLoop_type:
  "stencilLoop env rt b off clipBit els m = (m', r) \<Longrightarrow>
     fCurrClipMaskType m' = fCurrClipMaskType m"
proof (induction els arbitrary: m)
  case Nil
  then show ?case by simp
next
  case (Cons e es)
  obtain m1 r1 where s: "stencilElement env rt b off clipBit e m = (m1, r1)"
    by (cases "stencilElement env rt b off clipBit e m") auto
  from stencilElement_type [OF s] have t: "fCurrClipMaskType m1 = fCurrClipMaskType m" .
  show ?case
  proof (cases r1)
    case True
    with s Cons.prems have "stencilLoop env rt b off clipBit es m1 = (m', r)" by simp
    from Cons.IH [OF this] t show ?thesis by simp
  next
    case False
    with s Cons.prems have "m' = m1" by simp
    with t show ?thesis by simp
  qed
qed

text \<open>The stencil mask never leaves the mask type at "alpha" unless it was so before.\<close>

lemma createStencilClipMask_type:
  assumes "createStencilClipMask env m rt g i els b off = (m', r)"
  shows "fCurrClipMaskType m' = kStencil_ClipMaskType \<or> fCurrClipMaskType m' = fCurrClipMaskType m"
proof (cases "getStencilBuffer rt")
  case None
  with assms show ?thesis by (simp add: createStencilClipMask_def)
next
  case (Some bits)
  show ?thesis
  proof (cases "mustRenderClip m g b off")
    case False
    with Some assms show ?thesis by (auto simp: createStencilClipMask_def Let_def)
  next
    case True
    let ?m2 = "issue (Cmd_clearStencilClip (SkIRect_offset b off) (i = kAllIn_InitialState) rt)
                 (setLastClip g b off m)"
    obtain m3 r3 where l: "stencilLoop env rt b off (2 ^ nat (bits - 1)) els ?m2 = (m3, r3)"
      by (cases "stencilLoop env rt b off (2 ^ nat (bits - 1)) els ?m2") auto
    from stencilLoop_type [OF l] have "fCurrClipMaskType m3 = fCurrClipMaskType m"
      by (simp add: issue_simps setLastClip_def)
    with True Some assms l show ?thesis
      by (auto simp: createStencilClipMask_def Let_def split: if_splits)
  qed
qed

lemma stencilFallback_ok: "cs_ok (stencilFallback env m ds a s cd red)"
  by (simp add: stencilFallback_def Let_def finishWithStencil_simps split: prod.splits)

lemma stencilFallback_type:
  assumes "fCurrClipMaskType m \<noteq> kAlpha_ClipMaskType"
  shows "fCurrClipMaskType (cs_mgr (stencilFallback env m ds a s cd red)) \<noteq> kAlpha_ClipMaskType"
proof -
  let ?m1 = "m\<lparr>fAACache := cache_reset (fAACache m)\<rparr>"
  obtain m2 r where c: "createStencilClipMask env ?m1 (renderTarget ds) (r_genID red)
      (r_initialState red) (r_elements red) (r_clipSpaceIBounds red)
      (SkIPoint_neg (fOrigin cd)) = (m2, r)"
    by (cases "createStencilClipMask env ?m1 (renderTarget ds) (r_genID red)
      (r_initialState red) (r_elements red) (r_clipSpaceIBounds red)
      (SkIPoint_neg (fOrigin cd))") auto
  from createStencilClipMask_type [OF c] assms
  have "fCurrClipMaskType m2 \<noteq> kAlpha_ClipMaskType" by auto
  with c show ?thesis
    by (simp add: stencilFallback_def Let_def finishWithStencil_simps)
qed

text \<open>
  Claim C1, what the code does where the claim has \<^verbatim>\<open>setupClipping\<close> return failure:
  when the reduction is not empty and asks for no anti-aliasing, the call goes to the
  stencil fallback, and when \<^verbatim>\<open>createStencilClipMask\<close> returns \<^verbatim>\<open>false\<close> there
  (no stencil buffer, or no path renderer for an element), \<^verbatim>\<open>setupClipping\<close> still
  returns \<^verbatim>\<open>true\<close>, with the manager as the failed construction left it.
\<close>

theorem setupClipping_ignores_stencil_failure:
  assumes clip: "kClip_StateBit ds" and nopen: "\<not> isWideOpen env (fClipStack cd)"
    and red: "red = ReduceClipStack env (fClipStack cd)
                 (SkIRect_offset (SkIRect_MakeWH (rt_width (renderTarget ds))
                    (rt_height (renderTarget ds))) (fOrigin cd))"
    and ne: "r_elements red \<noteq> []" and noaa: "\<not> r_requiresAA red"
    and fail: "createStencilClipMask env
                 ((beginSetup m)\<lparr>fAACache := cache_reset (fAACache (beginSetup m))\<rparr>)
                 (renderTarget ds) (r_genID red) (r_initialState red) (r_elements red)
                 (r_clipSpaceIBounds red) (SkIPoint_neg (fOrigin cd)) = (m2, False)"
    and cs: "cs = setupClipping env m ds a s sc cd devBounds"
  shows "cs_ok cs \<and> cs_mgr cs = m2"
  using clip nopen ne noaa fail
  unfolding cs setupClipping_def red [symmetric] Let_def
  by (simp add: stencilFallback_def Let_def finishWithStencil_simps)

text \<open>
  Claim C1 at a concrete input: clipping enabled, the reduction is one path element
  without anti-aliasing, and no path renderer is available. The stencil mask is not built
  (\<^verbatim>\<open>createStencilClipMask\<close> returns \<^verbatim>\<open>false\<close> at the renderer lookup), and
  \<^verbatim>\<open>setupClipping\<close> returns \<^verbatim>\<open>true\<close> with mask type none and the stencil clip ignored.
\<close>

theorem setupClipping_ignores_stencil_failure_witness:
  "\<not> snd (createStencilClipMask (demo_env\<lparr>getPathRenderer := (\<lambda>d e t. None)\<rparr>) demo_mgr demo_rt 1
            kAllIn_InitialState [demo_element kIntersect_Op kPath_Type False]
            (SkIRect_MakeWH 200 200) \<lparr>fX = 0, fY = 0\<rparr>)
   \<and> cs_ok (setupClipping (demo_env\<lparr>getPathRenderer := (\<lambda>d e t. None)\<rparr>) demo_mgr demo_ds
              None None None (demo_clip [demo_element kIntersect_Op kPath_Type False]) None)
   \<and> fCurrClipMaskType (cs_mgr (setupClipping (demo_env\<lparr>getPathRenderer := (\<lambda>d e t. None)\<rparr>)
              demo_mgr demo_ds None None None
              (demo_clip [demo_element kIntersect_Op kPath_Type False]) None))
       = kNone_ClipMaskType
   \<and> fClipMode (cs_mgr (setupClipping (demo_env\<lparr>getPathRenderer := (\<lambda>d e t. None)\<rparr>)
              demo_mgr demo_ds None None None
              (demo_clip [demo_element kIntersect_Op kPath_Type False]) None))
       = kIgnoreClip_StencilClipMode"
proof -
  let ?env = "demo_env\<lparr>getPathRenderer := (\<lambda>d e t. None)\<rparr>"
  let ?st = "[demo_element kIntersect_Op kPath_Type False]"
  let ?red = "ReduceClipStack ?env (fClipStack (demo_clip ?st))
                 (SkIRect_offset (SkIRect_MakeWH (rt_width (renderTarget demo_ds))
                    (rt_height (renderTarget demo_ds))) (fOrigin (demo_clip ?st)))"
  let ?m2 = "demo_mgr\<lparr>fClipTarget :=
                 [Cmd_clearStencilClip (SkIRect_MakeWH 200 200) True demo_rt],
               fLastClip := Some (1, SkIRect_MakeWH 200 200, \<lparr>fX = 0, fY = 0\<rparr>)\<rparr>"
  have clip: "kClip_StateBit demo_ds" by code_simp
  have nopen: "\<not> isWideOpen ?env (fClipStack (demo_clip ?st))" by code_simp
  have ne: "r_elements ?red \<noteq> []" by code_simp
  have noaa: "\<not> r_requiresAA ?red" by code_simp
  have fail: "createStencilClipMask ?env
                 ((beginSetup demo_mgr)\<lparr>fAACache := cache_reset (fAACache (beginSetup demo_mgr))\<rparr>)
                 (renderTarget demo_ds) (r_genID ?red) (r_initialState ?red) (r_elements ?red)
                 (r_clipSpaceIBounds ?red) (SkIPoint_neg (fOrigin (demo_clip ?st))) = (?m2, False)"
    by code_simp
  have direct: "\<not> snd (createStencilClipMask ?env demo_mgr demo_rt 1
            kAllIn_InitialState ?st (SkIRect_MakeWH 200 200) \<lparr>fX = 0, fY = 0\<rparr>)"
    by code_simp
  have m2: "fCurrClipMaskType ?m2 = kNone_ClipMaskType"
           "fClipMode ?m2 = kIgnoreClip_StencilClipMode"
    by code_simp+
  show ?thesis
    using setupClipping_ignores_stencil_failure [OF clip nopen refl ne noaa fail refl,
        of None None None None] direct m2
    by simp
qed

section \<open>The alpha-mask path\<close>

text \<open>
  Claim C5: suppose clipping is enabled, the stack is not wide open, the reduction is not
  empty and the fast path is not taken (not attempted, or attempted and failed). If the
  target is multisampled or the reduction asks for no anti-aliasing, no mask construction
  takes place: the call is the stencil fallback on the manager state the call started
  from. If the target is not multisampled and anti-aliasing is asked for and the mask
  construction returns \<^verbatim>\<open>NULL\<close>, the call is the stencil fallback on the state the
  failed construction left. In every case the call returns success, and the mask type is
  "alpha" afterwards only if the target is not multisampled and anti-aliasing is asked for.
\<close>

theorem setupClipping_alpha_mask_path:
  assumes clip: "kClip_StateBit ds" and nopen: "\<not> isWideOpen env (fClipStack cd)"
    and red: "red = ReduceClipStack env (fClipStack cd)
                 (SkIRect_offset (SkIRect_MakeWH (rt_width (renderTarget ds))
                    (rt_height (renderTarget ds))) (fOrigin cd))"
    and ne: "r_elements red \<noteq> []"
    and fast: "(if length (r_elements red) \<le> 4 \<and> r_requiresAA red
                then installClipEffects env ds a (r_elements red)
                       (SkIPoint_neg (fOrigin cd)) devBounds
                else (ds, a, False)) = (ds1, a1, False)"
    and cs: "cs = setupClipping env m ds a s sc cd devBounds"
  shows "(\<not> (numSamples (renderTarget ds) = 0 \<and> r_requiresAA red) \<longrightarrow>
            cs = stencilFallback env (beginSetup m) ds1 a1 s cd red)
       \<and> (numSamples (renderTarget ds) = 0 \<and> r_requiresAA red \<longrightarrow>
            (\<forall>m1. createMask env (beginSetup m) ds1 red = (m1, None) \<longrightarrow>
                  cs = stencilFallback env m1 ds1 a1 s cd red))
       \<and> cs_ok cs
       \<and> (fCurrClipMaskType (cs_mgr cs) = kAlpha_ClipMaskType \<longrightarrow>
            numSamples (renderTarget ds) = 0 \<and> r_requiresAA red)"
proof -
  have A: "cs = stencilFallback env (beginSetup m) ds1 a1 s cd red"
    if "\<not> (numSamples (renderTarget ds) = 0 \<and> r_requiresAA red)"
    using clip nopen ne fast that
    unfolding cs setupClipping_def red [symmetric] Let_def
    by (auto split: if_splits)
  have B: "cs = stencilFallback env m1 ds1 a1 s cd red"
    if "numSamples (renderTarget ds) = 0 \<and> r_requiresAA red"
      and "createMask env (beginSetup m) ds1 red = (m1, None)" for m1
    using clip nopen ne fast that
    unfolding cs setupClipping_def red [symmetric] Let_def
    by (auto split: if_splits)
  have C: "cs_ok cs"
    using clip nopen ne fast
    unfolding cs setupClipping_def red [symmetric] Let_def
    by (auto simp: finishWithStencil_simps stencilFallback_ok split: if_splits prod.splits option.splits)
  have D: "numSamples (renderTarget ds) = 0 \<and> r_requiresAA red"
    if "fCurrClipMaskType (cs_mgr cs) = kAlpha_ClipMaskType"
  proof (rule ccontr)
    assume n: "\<not> (numSamples (renderTarget ds) = 0 \<and> r_requiresAA red)"
    have "fCurrClipMaskType (beginSetup m) \<noteq> kAlpha_ClipMaskType"
      by (simp add: beginSetup_simps)
    from stencilFallback_type [OF this] A [OF n] that show False by simp
  qed
  from A B C D show ?thesis by blast
qed

text \<open>
  Claim C5 at two concrete inputs, both one anti-aliased union rectangle (which the fast
  path rejects). On the target without multisampling, with a texture allocator that always
  fails, the mask construction is entered and returns \<^verbatim>\<open>NULL\<close>; the call then builds
  the stencil mask and returns success. On a target with four samples the mask cache and
  the allocator are never touched and the call builds the stencil mask.
\<close>

theorem setupClipping_alpha_mask_path_witness:
  "snd (createMask (demo_env\<lparr>refScratchTexture := (\<lambda>d. None)\<rparr>) (beginSetup demo_mgr) demo_ds
          (demo_reduce [demo_element kUnion_Op kRect_Type True] (SkIRect_MakeWH 200 200))) = None
   \<and> cs_ok (setupClipping (demo_env\<lparr>refScratchTexture := (\<lambda>d. None)\<rparr>) demo_mgr demo_ds
              None None None (demo_clip [demo_element kUnion_Op kRect_Type True]) None)
   \<and> fCurrClipMaskType (cs_mgr (setupClipping (demo_env\<lparr>refScratchTexture := (\<lambda>d. None)\<rparr>)
              demo_mgr demo_ds None None None
              (demo_clip [demo_element kUnion_Op kRect_Type True]) None))
       = kStencil_ClipMaskType
   \<and> setupClipping demo_env demo_mgr (demo_ds\<lparr>renderTarget := demo_rt\<lparr>numSamples := 4\<rparr>\<rparr>)
        None None None (demo_clip [demo_element kUnion_Op kRect_Type True]) None
       = stencilFallback demo_env demo_mgr (demo_ds\<lparr>renderTarget := demo_rt\<lparr>numSamples := 4\<rparr>\<rparr>)
           None None (demo_clip [demo_element kUnion_Op kRect_Type True])
           (demo_reduce [demo_element kUnion_Op kRect_Type True] (SkIRect_MakeWH 200 200))"
proof -
  let ?env = "demo_env\<lparr>refScratchTexture := (\<lambda>d. None)\<rparr>"
  let ?st = "[demo_element kUnion_Op kRect_Type True]"
  let ?ds4 = "demo_ds\<lparr>renderTarget := demo_rt\<lparr>numSamples := 4\<rparr>\<rparr>"
  let ?red = "ReduceClipStack ?env (fClipStack (demo_clip ?st))
                 (SkIRect_offset (SkIRect_MakeWH (rt_width (renderTarget demo_ds))
                    (rt_height (renderTarget demo_ds))) (fOrigin (demo_clip ?st)))"
  let ?red4 = "ReduceClipStack demo_env (fClipStack (demo_clip ?st))
                 (SkIRect_offset (SkIRect_MakeWH (rt_width (renderTarget ?ds4))
                    (rt_height (renderTarget ?ds4))) (fOrigin (demo_clip ?st)))"
  have clip: "kClip_StateBit demo_ds" "kClip_StateBit ?ds4" by code_simp+
  have nopen: "\<not> isWideOpen ?env (fClipStack (demo_clip ?st))"
              "\<not> isWideOpen demo_env (fClipStack (demo_clip ?st))" by code_simp+
  have ne: "r_elements ?red \<noteq> []" "r_elements ?red4 \<noteq> []" by code_simp+
  have fast: "(if length (r_elements ?red) \<le> 4 \<and> r_requiresAA ?red
                then installClipEffects ?env demo_ds None (r_elements ?red)
                       (SkIPoint_neg (fOrigin (demo_clip ?st))) None
                else (demo_ds, None, False)) = (demo_ds, None, False)"
    by code_simp
  have fast4: "(if length (r_elements ?red4) \<le> 4 \<and> r_requiresAA ?red4
                then installClipEffects demo_env ?ds4 None (r_elements ?red4)
                       (SkIPoint_neg (fOrigin (demo_clip ?st))) None
                else (?ds4, None, False)) = (?ds4, None, False)"
    by code_simp
  have cond: "numSamples (renderTarget demo_ds) = 0 \<and> r_requiresAA ?red" by code_simp
  have cond4: "\<not> (numSamples (renderTarget ?ds4) = 0 \<and> r_requiresAA ?red4)" by code_simp
  have mk: "createMask ?env (beginSetup demo_mgr) demo_ds ?red = (demo_mgr, None)" by code_simp
  have mk': "snd (createMask ?env (beginSetup demo_mgr) demo_ds
          (demo_reduce ?st (SkIRect_MakeWH 200 200))) = None" by code_simp
  have sf: "fCurrClipMaskType (cs_mgr (stencilFallback ?env demo_mgr demo_ds None None
              (demo_clip ?st) ?red)) = kStencil_ClipMaskType" by code_simp
  have r4: "?red4 = demo_reduce ?st (SkIRect_MakeWH 200 200)" "beginSetup demo_mgr = demo_mgr"
    by code_simp+
  from setupClipping_alpha_mask_path [OF clip(1) nopen(1) refl ne(1) fast refl,
      of demo_mgr None None] cond mk
  have 1: "setupClipping ?env demo_mgr demo_ds None None None (demo_clip ?st) None
             = stencilFallback ?env demo_mgr demo_ds None None (demo_clip ?st) ?red"
    and 2: "cs_ok (setupClipping ?env demo_mgr demo_ds None None None (demo_clip ?st) None)"
    by blast+
  from setupClipping_alpha_mask_path [OF clip(2) nopen(2) refl ne(2) fast4 refl,
      of demo_mgr None None] cond4
  have 3: "setupClipping demo_env demo_mgr ?ds4 None None None (demo_clip ?st) None
             = stencilFallback demo_env (beginSetup demo_mgr) ?ds4 None None (demo_clip ?st) ?red4"
    by blast
  from 1 2 3 sf mk' r4 show ?thesis by simp
qed

section \<open>The mask cache\<close>

lemma onlyDraws_refl: "onlyDraws m m"
  by (simp add: onlyDraws_def)

lemma onlyDraws_trans: "onlyDraws m m' \<Longrightarrow> onlyDraws m' m'' \<Longrightarrow> onlyDraws m m''"
  by (auto simp: onlyDraws_def intro: prefix_order.trans)

lemma onlyDraws_issue: "onlyDraws m (issue c m)"
  by (simp add: onlyDraws_def issue_simps)

lemma drawElement_onlyDraws:
  "drawElement env m d t e pr = (m', r) \<Longrightarrow> onlyDraws m m'"
  by (auto simp: drawElement_def Let_def onlyDraws_refl onlyDraws_issue
      split: Element_Type.splits option.splits if_splits)

lemma mergeMask_onlyDraws: "onlyDraws m (mergeMask m d dst src op db sb)"
  by (simp add: mergeMask_def Let_def onlyDraws_issue)

lemma cache_reset_onlyDraws_log:
  "onlyDraws m m' \<Longrightarrow> prefix (fClipTarget m) (fClipTarget (m'\<lparr>fAACache := c\<rparr>))"
  by (simp add: onlyDraws_def)

text \<open>
  One element of the GPU mask: when the loop goes on the cache is as it was, and when it
  stops the cache is empty; either way commands were only appended.
\<close>

lemma alphaElement_cache:
  assumes "alphaElement env result b e temp m = (m', temp', r)"
  shows "prefix (fClipTarget m) (fClipTarget m')
       \<and> (if r then fAACache m' = fAACache m else fAACache m' = None)"
proof (cases "isInverseFilled e \<or> getOp e = kIntersect_Op \<or> getOp e = kReverseDifference_Op")
  case False
  let ?d = "setup_boolean_blendcoeffs (getOp e)
             ((GrDrawState_ctor (MatTranslate (- fLeft b) (- fTop b)) (asRenderTarget result))
                \<lparr>kCoverageDrawing_StateBit := True, kClip_StateBit := True, alpha := 0xff\<rparr>)"
  obtain m1 dr where d: "drawElement env m ?d result e None = (m1, dr)"
    by (cases "drawElement env m ?d result e None") auto
  from False assms d have "m' = m1" "r"
    by (auto simp: alphaElement_def Let_def)
  with drawElement_onlyDraws [OF d] show ?thesis by (simp add: onlyDraws_def)
next
  case True
  let ?ds0 = "(GrDrawState_ctor (MatTranslate (- fLeft b) (- fTop b)) (asRenderTarget result))
                \<lparr>kCoverageDrawing_StateBit := True, kClip_StateBit := True\<rparr>"
  obtain ds1 pr can where c: "canStencilAndDrawElement env ?ds0 result e = (ds1, pr, can)"
    by (cases "canStencilAndDrawElement env ?ds0 result e") auto
  show ?thesis
  proof (cases can)
    case can: True
    let ?d3 = "(setup_boolean_blendcoeffs (getOp e) (ds1\<lparr>stencil := kStencilInElement\<rparr>))
                 \<lparr>alpha := (if isInverseFilled e then 0x00 else 0xff)\<rparr>"
    obtain m2 dr where d: "drawElement env m ?d3 result e pr = (m2, dr)"
      by (cases "drawElement env m ?d3 result e pr") auto
    note od = drawElement_onlyDraws [OF d]
    show ?thesis
    proof (cases dr)
      case True
      with assms c can d \<open>isInverseFilled e \<or> getOp e = kIntersect_Op \<or> getOp e = kReverseDifference_Op\<close>
      have "r" and "\<exists>cmd. m' = issue cmd m2"
        by (auto simp: alphaElement_def Let_def)
      then obtain cmd where "m' = issue cmd m2" by blast
      with od onlyDraws_issue [of m2 cmd] have "onlyDraws m m'"
        by (auto intro: onlyDraws_trans)
      with \<open>r\<close> show ?thesis by (simp add: onlyDraws_def)
    next
      case False
      with assms c can d \<open>isInverseFilled e \<or> getOp e = kIntersect_Op \<or> getOp e = kReverseDifference_Op\<close>
      have "\<not> r" and "m' = m2\<lparr>fAACache := cache_reset (fAACache m2)\<rparr>"
        by (auto simp: alphaElement_def Let_def)
      with od show ?thesis by (simp add: onlyDraws_def cache_reset_def)
    qed
  next
    case cannot: False
    let ?msb = "SkIRect_MakeWH (SkIRect_width b) (SkIRect_height b)"
    let ?temp' = "(case temp of None \<Rightarrow> createTempMask env (fRight ?msb) (fBottom ?msb)
                   | Some t \<Rightarrow> Some t)"
    show ?thesis
    proof (cases ?temp')
      case None
      with assms c cannot \<open>isInverseFilled e \<or> getOp e = kIntersect_Op \<or> getOp e = kReverseDifference_Op\<close>
      have "\<not> r" and "m' = m\<lparr>fAACache := cache_reset (fAACache m)\<rparr>"
        by (auto simp: alphaElement_def Let_def)
      then show ?thesis by (simp add: cache_reset_def)
    next
      case (Some dst)
      let ?eb = "(if isInverseFilled e then ?msb
                  else Element_getBounds_roundOut env e \<lparr>fX = - fLeft b, fY = - fTop b\<rparr>)"
      let ?m1 = "issue (Cmd_clear ?eb (if isInverseFilled e then 0xffffffff else 0x00000000)
                          (asRenderTarget dst)) m"
      let ?d3 = "(setup_boolean_blendcoeffs kReplace_Op ds1)
                   \<lparr>alpha := (if isInverseFilled e then 0x00 else 0xff)\<rparr>"
      obtain m2 dr where d: "drawElement env ?m1 ?d3 dst e pr = (m2, dr)"
        by (cases "drawElement env ?m1 ?d3 dst e pr") auto
      from drawElement_onlyDraws [OF d] onlyDraws_issue
      have od: "onlyDraws m m2" by (auto intro: onlyDraws_trans)
      show ?thesis
      proof (cases dr)
        case True
        with assms c cannot Some d
          \<open>isInverseFilled e \<or> getOp e = kIntersect_Op \<or> getOp e = kReverseDifference_Op\<close>
        have "r" and "\<exists>d' op db sb. m' = mergeMask m2 d' result dst op db sb"
          by (auto simp: alphaElement_def Let_def)
        then obtain d' op db sb where "m' = mergeMask m2 d' result dst op db sb" by blast
        with od mergeMask_onlyDraws have "onlyDraws m m'"
          by (auto intro: onlyDraws_trans)
        with \<open>r\<close> show ?thesis by (simp add: onlyDraws_def)
      next
        case False
        with assms c cannot Some d
          \<open>isInverseFilled e \<or> getOp e = kIntersect_Op \<or> getOp e = kReverseDifference_Op\<close>
        have "\<not> r" and "m' = m2\<lparr>fAACache := cache_reset (fAACache m2)\<rparr>"
          by (auto simp: alphaElement_def Let_def)
        with od show ?thesis by (simp add: onlyDraws_def cache_reset_def)
      qed
    qed
  qed
qed

lemma alphaLoop_cache:
  "alphaLoop env result b els temp m = (m', r) \<Longrightarrow>
     prefix (fClipTarget m) (fClipTarget m')
     \<and> (if r then fAACache m' = fAACache m else fAACache m' = None)"
proof (induction els arbitrary: temp m)
  case Nil
  then show ?case by simp
next
  case (Cons e es)
  obtain m1 temp1 r1 where a: "alphaElement env result b e temp m = (m1, temp1, r1)"
    by (cases "alphaElement env result b e temp m") auto
  note ac = alphaElement_cache [OF a]
  show ?case
  proof (cases r1)
    case True
    with a Cons.prems have "alphaLoop env result b es temp1 m1 = (m', r)" by simp
    from Cons.IH [OF this] ac True show ?thesis
      by (auto intro: prefix_order.trans split: if_splits)
  next
    case False
    with a Cons.prems have "m' = m1" "\<not> r" by auto
    with ac False show ?thesis by simp
  qed
qed

lemma getCachedMaskTexture_hit:
  "fAACache m = Some \<lparr>fLastClipGenID = g, fLastBound = b, fLastMask = t\<rparr> \<Longrightarrow>
     getCachedMaskTexture m g b = Some t"
  by (simp add: getCachedMaskTexture_def canReuse_def getLastMask_def)

lemma getCachedMaskTexture_miss:
  "fAACache m = Some \<lparr>fLastClipGenID = g, fLastBound = b, fLastMask = t\<rparr> \<Longrightarrow>
     g' \<noteq> g \<or> b' \<noteq> b \<Longrightarrow> getCachedMaskTexture m g' b' = None"
  by (auto simp: getCachedMaskTexture_def canReuse_def getLastMask_def)

lemma getCachedMaskTexture_empty: "fAACache m = None \<Longrightarrow> getCachedMaskTexture m g b = None"
  by (simp add: getCachedMaskTexture_def canReuse_def)

lemma getCachedMaskTexture_Some:
  "getCachedMaskTexture m g b = Some t \<Longrightarrow>
     fAACache m = Some \<lparr>fLastClipGenID = g, fLastBound = b, fLastMask = t\<rparr>"
  by (auto simp: getCachedMaskTexture_def canReuse_def getLastMask_def
      split: option.splits if_splits)

text \<open>
  Allocation empties the cache or fills it with a texture the allocator returned, under the
  key it was asked for; it sends nothing to the clip target.
\<close>

lemma allocMaskTexture_result:
  assumes "allocMaskTexture env m g b w = (m1, r)"
  shows "fClipTarget m1 = fClipTarget m
       \<and> (case r of
            None \<Rightarrow> fAACache m1 = None
          | Some t \<Rightarrow> (\<exists>desc. refScratchTexture env desc = Some t)
                     \<and> fAACache m1 = Some \<lparr>fLastClipGenID = g, fLastBound = b, fLastMask = t\<rparr>)"
  using assms
  by (auto simp: allocMaskTexture_def Let_def acquireMask_def getLastMask_def
      split: option.splits)

text \<open>
  The outcome of the GPU construction: \<^verbatim>\<open>NULL\<close> with an empty cache, or a mask that is
  the cache's entry under the key of the call. A mask that was not in the cache was drawn:
  the log grew.
\<close>

lemma createAlphaClipMask_result:
  assumes "createAlphaClipMask env m g i els b = (m', r)"
  shows "prefix (fClipTarget m) (fClipTarget m')
       \<and> (case r of
            None \<Rightarrow> fAACache m' = None
          | Some t \<Rightarrow> fAACache m' = Some \<lparr>fLastClipGenID = g, fLastBound = b, fLastMask = t\<rparr>
                     \<and> (getCachedMaskTexture m g b = None \<longrightarrow>
                          (\<exists>desc. refScratchTexture env desc = Some t)
                          \<and> strict_prefix (fClipTarget m) (fClipTarget m')))"
proof (cases "getCachedMaskTexture m g b")
  case (Some t)
  with assms have "m' = m\<lparr>fCurrClipMaskType := kAlpha_ClipMaskType\<rparr>" "r = Some t"
    by (auto simp: createAlphaClipMask_def)
  with getCachedMaskTexture_Some [OF Some] Some show ?thesis by simp
next
  case None
  obtain m1 r1 where al: "allocMaskTexture env m g b False = (m1, r1)"
    by (cases "allocMaskTexture env m g b False") auto
  note ar = allocMaskTexture_result [OF al]
  show ?thesis
  proof (cases r1)
    case n: None
    with None al assms have "m' = m1\<lparr>fAACache := cache_reset (fAACache m1)\<rparr>" "r = None"
      by (auto simp: createAlphaClipMask_def)
    with ar show ?thesis by (simp add: cache_reset_def)
  next
    case (Some t)
    let ?c = "Cmd_clear (SkIRect_MakeWH (SkIRect_width b) (SkIRect_height b))
                (if i = kAllIn_InitialState then 0xffffffff else 0x00000000) (asRenderTarget t)"
    obtain m3 r3 where lp: "alphaLoop env t b els None (issue ?c m1) = (m3, r3)"
      by (cases "alphaLoop env t b els None (issue ?c m1)") auto
    from alphaLoop_cache [OF lp]
    have p: "prefix (fClipTarget m @ [?c]) (fClipTarget m3)"
      and c: "if r3 then fAACache m3 = fAACache m1 else fAACache m3 = None"
      using ar by (simp_all add: issue_simps)
    from p have sp: "strict_prefix (fClipTarget m) (fClipTarget m3)"
      by (auto simp: prefix_def strict_prefix_def)
    show ?thesis
    proof (cases r3)
      case True
      with None al Some lp assms
      have "m' = m3\<lparr>fCurrClipMaskType := kAlpha_ClipMaskType\<rparr>" "r = Some t"
        by (auto simp: createAlphaClipMask_def Let_def)
      with c True ar Some sp show ?thesis by (auto simp: strict_prefix_def)
    next
      case False
      with None al Some lp assms have "m' = m3" "r = None"
        by (auto simp: createAlphaClipMask_def Let_def)
      with c False sp show ?thesis by (auto simp: strict_prefix_def)
    qed
  qed
qed

lemma createSoftwareClipMask_result:
  assumes "createSoftwareClipMask env m g i els b = (m', r)"
  shows "prefix (fClipTarget m) (fClipTarget m')
       \<and> (case r of
            None \<Rightarrow> fAACache m' = None
          | Some t \<Rightarrow> fAACache m' = Some \<lparr>fLastClipGenID = g, fLastBound = b, fLastMask = t\<rparr>
                     \<and> (getCachedMaskTexture m g b = None \<longrightarrow>
                          (\<exists>desc. refScratchTexture env desc = Some t)
                          \<and> strict_prefix (fClipTarget m) (fClipTarget m')))"
proof (cases "getCachedMaskTexture m g b")
  case (Some t)
  with assms have "m' = m" "r = Some t"
    by (auto simp: createSoftwareClipMask_def)
  with getCachedMaskTexture_Some [OF Some] Some show ?thesis by simp
next
  case None
  obtain m1 r1 where al: "allocMaskTexture env m g b True = (m1, r1)"
    by (cases "allocMaskTexture env m g b True") auto
  note ar = allocMaskTexture_result [OF al]
  show ?thesis
  proof (cases r1)
    case n: None
    with None al assms have "m' = m1\<lparr>fAACache := cache_reset (fAACache m1)\<rparr>" "r = None"
      by (auto simp: createSoftwareClipMask_def Let_def)
    with ar show ?thesis by (simp add: cache_reset_def)
  next
    case (Some t)
    with None al assms
    have "\<exists>c. m' = (issue c m1)\<lparr>fCurrClipMaskType := kAlpha_ClipMaskType\<rparr>" "r = Some t"
      by (auto simp: createSoftwareClipMask_def Let_def)
    then obtain c where "m' = (issue c m1)\<lparr>fCurrClipMaskType := kAlpha_ClipMaskType\<rparr>" by blast
    with ar Some \<open>r = Some t\<close> show ?thesis
      by (auto simp: issue_simps strict_prefix_def)
  qed
qed

lemma createMask_result:
  assumes "createMask env m ds red = (m', r)"
  shows "prefix (fClipTarget m) (fClipTarget m')
       \<and> (case r of
            None \<Rightarrow> fAACache m' = None
          | Some t \<Rightarrow> fAACache m' = Some \<lparr>fLastClipGenID = r_genID red,
                                          fLastBound = r_clipSpaceIBounds red, fLastMask = t\<rparr>
                     \<and> (getCachedMaskTexture m (r_genID red) (r_clipSpaceIBounds red) = None \<longrightarrow>
                          (\<exists>desc. refScratchTexture env desc = Some t)
                          \<and> strict_prefix (fClipTarget m) (fClipTarget m')))"
  using assms createAlphaClipMask_result createSoftwareClipMask_result
  by (auto simp: createMask_def split: if_splits)

lemma createMask_hit:
  assumes "fAACache m = Some \<lparr>fLastClipGenID = r_genID red, fLastBound = r_clipSpaceIBounds red,
                              fLastMask = t\<rparr>"
  shows "snd (createMask env m ds red) = Some t
       \<and> fClipTarget (fst (createMask env m ds red)) = fClipTarget m
       \<and> fAACache (fst (createMask env m ds red)) = fAACache m"
  using getCachedMaskTexture_hit [OF assms]
  by (simp add: createMask_def createAlphaClipMask_def createSoftwareClipMask_def)

text \<open>
  Claim C7: after a mask construction that returned a mask, a second construction with the
  same generation id and the same clip-space bounds returns that mask from the cache and
  sends nothing to the clip target (whatever the environment, the draw state and the
  remaining outputs of the reduction are); a second construction with another generation
  id or other bounds misses the cache and regenerates: it ends with \<^verbatim>\<open>NULL\<close> and an
  empty cache, or with a texture the allocator returned, cached under the new key, after
  new commands were sent to the clip target.
\<close>

theorem mask_cache_reuse:
  assumes first: "createMask env m ds red = (m1, Some t)"
  shows "(r_genID red' = r_genID red \<and> r_clipSpaceIBounds red' = r_clipSpaceIBounds red \<longrightarrow>
            snd (createMask env' m1 ds' red') = Some t
            \<and> fClipTarget (fst (createMask env' m1 ds' red')) = fClipTarget m1
            \<and> fAACache (fst (createMask env' m1 ds' red')) = fAACache m1)
       \<and> (r_genID red' \<noteq> r_genID red \<or> r_clipSpaceIBounds red' \<noteq> r_clipSpaceIBounds red \<longrightarrow>
            getCachedMaskTexture m1 (r_genID red') (r_clipSpaceIBounds red') = None
            \<and> (case createMask env' m1 ds' red' of
                 (m2, None) \<Rightarrow> fAACache m2 = None
               | (m2, Some t') \<Rightarrow>
                   (\<exists>desc. refScratchTexture env' desc = Some t')
                   \<and> fAACache m2 = Some \<lparr>fLastClipGenID = r_genID red',
                                          fLastBound = r_clipSpaceIBounds red', fLastMask = t'\<rparr>
                   \<and> strict_prefix (fClipTarget m1) (fClipTarget m2)))"
proof -
  from createMask_result [OF first]
  have c: "fAACache m1 = Some \<lparr>fLastClipGenID = r_genID red, fLastBound = r_clipSpaceIBounds red,
                               fLastMask = t\<rparr>"
    by simp
  have A: "snd (createMask env' m1 ds' red') = Some t
            \<and> fClipTarget (fst (createMask env' m1 ds' red')) = fClipTarget m1
            \<and> fAACache (fst (createMask env' m1 ds' red')) = fAACache m1"
    if "r_genID red' = r_genID red \<and> r_clipSpaceIBounds red' = r_clipSpaceIBounds red"
    using createMask_hit [of m1 red' t env' ds'] c that by simp
  have B: "getCachedMaskTexture m1 (r_genID red') (r_clipSpaceIBounds red') = None
            \<and> (case createMask env' m1 ds' red' of
                 (m2, None) \<Rightarrow> fAACache m2 = None
               | (m2, Some t') \<Rightarrow>
                   (\<exists>desc. refScratchTexture env' desc = Some t')
                   \<and> fAACache m2 = Some \<lparr>fLastClipGenID = r_genID red',
                                          fLastBound = r_clipSpaceIBounds red', fLastMask = t'\<rparr>
                   \<and> strict_prefix (fClipTarget m1) (fClipTarget m2))"
    if n: "r_genID red' \<noteq> r_genID red \<or> r_clipSpaceIBounds red' \<noteq> r_clipSpaceIBounds red"
  proof -
    from getCachedMaskTexture_miss [OF c n]
    have miss: "getCachedMaskTexture m1 (r_genID red') (r_clipSpaceIBounds red') = None" .
    obtain m2 r2 where s: "createMask env' m1 ds' red' = (m2, r2)"
      by (cases "createMask env' m1 ds' red'") auto
    from createMask_result [OF s] miss s show ?thesis
      by (auto split: option.splits)
  qed
  from A B show ?thesis by blast
qed

text \<open>
  Claim C7 at a concrete input: the mask of one anti-aliased union rectangle, generation
  id 1, bounds 200 by 200, is built on the GPU. Building it again returns the same texture
  and leaves the log as it is; asking for generation id 2 misses the cache and draws again.
\<close>

theorem mask_cache_reuse_witness:
  "snd (createMask demo_env demo_mgr demo_ds
          (demo_reduce [demo_element kUnion_Op kRect_Type True] (SkIRect_MakeWH 200 200)))
     = Some (demo_texture \<lparr>kRenderTarget_GrSurfaceFlag = True, kNoStencil_GrSurfaceFlag = False,
                           fWidth = 200, fHeight = 200, fConfig = kAlpha_8_GrPixelConfig\<rparr>)
   \<and> snd (createMask demo_env
            (fst (createMask demo_env demo_mgr demo_ds
               (demo_reduce [demo_element kUnion_Op kRect_Type True] (SkIRect_MakeWH 200 200))))
            demo_ds
            (demo_reduce [demo_element kUnion_Op kRect_Type True] (SkIRect_MakeWH 200 200)))
     = Some (demo_texture \<lparr>kRenderTarget_GrSurfaceFlag = True, kNoStencil_GrSurfaceFlag = False,
                           fWidth = 200, fHeight = 200, fConfig = kAlpha_8_GrPixelConfig\<rparr>)
   \<and> fClipTarget (fst (createMask demo_env
            (fst (createMask demo_env demo_mgr demo_ds
               (demo_reduce [demo_element kUnion_Op kRect_Type True] (SkIRect_MakeWH 200 200))))
            demo_ds
            (demo_reduce [demo_element kUnion_Op kRect_Type True] (SkIRect_MakeWH 200 200))))
     = fClipTarget (fst (createMask demo_env demo_mgr demo_ds
               (demo_reduce [demo_element kUnion_Op kRect_Type True] (SkIRect_MakeWH 200 200))))
   \<and> strict_prefix
       (fClipTarget (fst (createMask demo_env demo_mgr demo_ds
               (demo_reduce [demo_element kUnion_Op kRect_Type True] (SkIRect_MakeWH 200 200)))))
       (fClipTarget (fst (createMask demo_env
            (fst (createMask demo_env demo_mgr demo_ds
               (demo_reduce [demo_element kUnion_Op kRect_Type True] (SkIRect_MakeWH 200 200))))
            demo_ds
            ((demo_reduce [demo_element kUnion_Op kRect_Type True] (SkIRect_MakeWH 200 200))
               \<lparr>r_genID := 2\<rparr>))))"
proof -
  let ?red = "demo_reduce [demo_element kUnion_Op kRect_Type True] (SkIRect_MakeWH 200 200)"
  let ?red2 = "?red\<lparr>r_genID := 2\<rparr>"
  let ?t = "demo_texture \<lparr>kRenderTarget_GrSurfaceFlag = True, kNoStencil_GrSurfaceFlag = False,
                           fWidth = 200, fHeight = 200, fConfig = kAlpha_8_GrPixelConfig\<rparr>"
  let ?m1 = "fst (createMask demo_env demo_mgr demo_ds ?red)"
  have s: "snd (createMask demo_env demo_mgr demo_ds ?red) = Some ?t" by code_simp
  then have first: "createMask demo_env demo_mgr demo_ds ?red = (?m1, Some ?t)"
    by (simp add: prod_eq_iff)
  have same: "r_genID ?red = r_genID ?red \<and> r_clipSpaceIBounds ?red = r_clipSpaceIBounds ?red"
    by simp
  have other: "r_genID ?red2 \<noteq> r_genID ?red \<or> r_clipSpaceIBounds ?red2 \<noteq> r_clipSpaceIBounds ?red"
    by code_simp
  have s2: "snd (createMask demo_env ?m1 demo_ds ?red2) = Some ?t" by code_simp
  note hit = mask_cache_reuse [OF first, of ?red demo_env demo_ds, THEN conjunct1, THEN mp, OF same]
  note regen = mask_cache_reuse [OF first, of ?red2 demo_env demo_ds, THEN conjunct2, THEN mp,
      OF other, THEN conjunct2]
  from hit
  have A: "snd (createMask demo_env ?m1 demo_ds ?red) = Some ?t
         \<and> fClipTarget (fst (createMask demo_env ?m1 demo_ds ?red)) = fClipTarget ?m1"
    by simp
  from regen s2
  have B: "strict_prefix (fClipTarget ?m1) (fClipTarget (fst (createMask demo_env ?m1 demo_ds ?red2)))"
    by (simp add: case_prod_beta)
  from s A B show ?thesis by simp
qed

section \<open>Failure of the mask construction\<close>

text \<open>
  Whenever either construction returns \<^verbatim>\<open>NULL\<close> the cache is empty, so that no later
  lookup can hit.
\<close>

lemma createAlphaClipMask_NULL_resets_cache:
  "createAlphaClipMask env m g i els b = (m', None) \<Longrightarrow>
     fAACache m' = None \<and> getCachedMaskTexture m' g' b' = None"
  using createAlphaClipMask_result [of env m g i els b m' None]
  by (simp add: getCachedMaskTexture_empty)

lemma createSoftwareClipMask_NULL_resets_cache:
  "createSoftwareClipMask env m g i els b = (m', None) \<Longrightarrow>
     fAACache m' = None \<and> getCachedMaskTexture m' g' b' = None"
  using createSoftwareClipMask_result [of env m g i els b m' None]
  by (simp add: getCachedMaskTexture_empty)

text \<open>
  Claim C10, what the code does where the claim has \<^verbatim>\<open>createAlphaClipMask\<close> return
  \<^verbatim>\<open>NULL\<close> with the cache reset because an element cannot be drawn: an element that is
  drawn straight into the accumulator (not inverse-filled, operator neither intersect nor
  reverse difference) and for which no path renderer is found while drawing a coverage
  mask is not drawn, and the result of \<^verbatim>\<open>drawElement\<close> is not looked at. For a mask of
  that one element the construction returns the freshly allocated texture, which holds
  only the initial clear, marks the mask type "alpha", and leaves the texture in the cache
  under the key of the call.
\<close>

theorem createAlphaClipMask_ignores_failed_draw:
  assumes miss: "getCachedMaskTexture m g b = None"
    and alloc: "allocMaskTexture env m g b False = (m1, Some t)"
    and direct: "\<not> isInverseFilled e" "getOp e \<noteq> kIntersect_Op"
                "getOp e \<noteq> kReverseDifference_Op"
    and path: "getType e = kPath_Type"
    and norenderer: "\<forall>d ty. kCoverageDrawing_StateBit d \<longrightarrow> getPathRenderer env d e ty = None"
  shows "\<not> snd (drawElement env m2
                 (setup_boolean_blendcoeffs (getOp e)
                    ((GrDrawState_ctor (MatTranslate (- fLeft b) (- fTop b)) (asRenderTarget t))
                       \<lparr>kCoverageDrawing_StateBit := True, kClip_StateBit := True,
                         alpha := 0xff\<rparr>)) t e None)
       \<and> snd (createAlphaClipMask env m g i [e] b) = Some t
       \<and> fAACache (fst (createAlphaClipMask env m g i [e] b))
           = Some \<lparr>fLastClipGenID = g, fLastBound = b, fLastMask = t\<rparr>
       \<and> fCurrClipMaskType (fst (createAlphaClipMask env m g i [e] b)) = kAlpha_ClipMaskType
       \<and> fClipTarget (fst (createAlphaClipMask env m g i [e] b))
           = fClipTarget m
             @ [Cmd_clear (SkIRect_MakeWH (SkIRect_width b) (SkIRect_height b))
                  (if i = kAllIn_InitialState then 0xffffffff else 0x00000000)
                  (asRenderTarget t)]"
proof -
  have nr: "getPathRenderer env d e ty = None" if "kCoverageDrawing_StateBit d" for d ty
    using norenderer that by blast
  have bit: "kCoverageDrawing_StateBit
               ((setup_boolean_blendcoeffs op d)\<lparr>renderTarget := rt\<rparr>) = kCoverageDrawing_StateBit d"
    for op d rt
    by (cases op) (simp_all add: setBlendFunc_def)
  have de: "drawElement env m'
              (setup_boolean_blendcoeffs (getOp e)
                 ((GrDrawState_ctor (MatTranslate (- fLeft b) (- fTop b)) (asRenderTarget t))
                    \<lparr>kCoverageDrawing_StateBit := True, kClip_StateBit := True,
                      alpha := 0xff\<rparr>)) t e None = (m', False)" for m'
    using path by (simp add: drawElement_def Let_def nr bit)
  from allocMaskTexture_result [OF alloc]
  have m1: "fClipTarget m1 = fClipTarget m"
           "fAACache m1 = Some \<lparr>fLastClipGenID = g, fLastBound = b, fLastMask = t\<rparr>"
    by simp_all
  have ae: "alphaElement env t b e None m' = (m', None, True)" for m'
    using direct de [of m'] by (simp add: alphaElement_def Let_def)
  have "createAlphaClipMask env m g i [e] b
          = ((issue (Cmd_clear (SkIRect_MakeWH (SkIRect_width b) (SkIRect_height b))
                       (if i = kAllIn_InitialState then 0xffffffff else 0x00000000)
                       (asRenderTarget t)) m1)\<lparr>fCurrClipMaskType := kAlpha_ClipMaskType\<rparr>, Some t)"
    using miss alloc ae by (simp add: createAlphaClipMask_def Let_def)
  with m1 de [of m2] show ?thesis by (simp add: issue_simps)
qed

text \<open>
  Claim C10 at a concrete input: the mask of one anti-aliased union path, generation id 1,
  bounds 200 by 200, with a renderer chain that has a renderer for the caller's draw state
  (so that \<^verbatim>\<open>useSWOnlyPath\<close> answers no) and none while coverage is drawn. The path is
  never drawn; the construction returns the cleared texture and keeps it in the cache, and
  \<^verbatim>\<open>setupClipping\<close> returns success with that mask.
\<close>

theorem createAlphaClipMask_ignores_failed_draw_witness:
  "snd (createAlphaClipMask demo_env_no_mask_renderer demo_mgr 1 kAllIn_InitialState
          [demo_element kUnion_Op kPath_Type True] (SkIRect_MakeWH 200 200))
     = Some (demo_texture \<lparr>kRenderTarget_GrSurfaceFlag = True, kNoStencil_GrSurfaceFlag = False,
                           fWidth = 200, fHeight = 200, fConfig = kAlpha_8_GrPixelConfig\<rparr>)
   \<and> fAACache (fst (createAlphaClipMask demo_env_no_mask_renderer demo_mgr 1 kAllIn_InitialState
          [demo_element kUnion_Op kPath_Type True] (SkIRect_MakeWH 200 200)))
     = Some \<lparr>fLastClipGenID = 1, fLastBound = SkIRect_MakeWH 200 200,
             fLastMask = demo_texture \<lparr>kRenderTarget_GrSurfaceFlag = True,
                           kNoStencil_GrSurfaceFlag = False,
                           fWidth = 200, fHeight = 200, fConfig = kAlpha_8_GrPixelConfig\<rparr>\<rparr>
   \<and> fClipTarget (fst (createAlphaClipMask demo_env_no_mask_renderer demo_mgr 1
          kAllIn_InitialState [demo_element kUnion_Op kPath_Type True] (SkIRect_MakeWH 200 200)))
     = [Cmd_clear (SkIRect_MakeWH 200 200) 0xffffffff
          (asRenderTarget (demo_texture \<lparr>kRenderTarget_GrSurfaceFlag = True,
                           kNoStencil_GrSurfaceFlag = False,
                           fWidth = 200, fHeight = 200, fConfig = kAlpha_8_GrPixelConfig\<rparr>))]
   \<and> cs_ok (setupClipping demo_env_no_mask_renderer demo_mgr demo_ds None None None
              (demo_clip [demo_element kUnion_Op kPath_Type True]) None)
   \<and> fCurrClipMaskType (cs_mgr (setupClipping demo_env_no_mask_renderer demo_mgr demo_ds
              None None None (demo_clip [demo_element kUnion_Op kPath_Type True]) None))
     = kAlpha_ClipMaskType
   \<and> fClipTarget (cs_mgr (setupClipping demo_env_no_mask_renderer demo_mgr demo_ds
              None None None (demo_clip [demo_element kUnion_Op kPath_Type True]) None))
     = [Cmd_clear (SkIRect_MakeWH 200 200) 0xffffffff
          (asRenderTarget (demo_texture \<lparr>kRenderTarget_GrSurfaceFlag = True,
                           kNoStencil_GrSurfaceFlag = False,
                           fWidth = 200, fHeight = 200, fConfig = kAlpha_8_GrPixelConfig\<rparr>))]"
proof -
  let ?e = "demo_element kUnion_Op kPath_Type True"
  let ?b = "SkIRect_MakeWH 200 200"
  let ?t = "demo_texture \<lparr>kRenderTarget_GrSurfaceFlag = True, kNoStencil_GrSurfaceFlag = False,
                           fWidth = 200, fHeight = 200, fConfig = kAlpha_8_GrPixelConfig\<rparr>"
  let ?m1 = "demo_mgr\<lparr>fAACache :=
               Some \<lparr>fLastClipGenID = 1, fLastBound = ?b, fLastMask = ?t\<rparr>\<rparr>"
  have miss: "getCachedMaskTexture demo_mgr 1 ?b = None" by code_simp
  have alloc: "allocMaskTexture demo_env_no_mask_renderer demo_mgr 1 ?b False = (?m1, Some ?t)"
    by code_simp
  have direct: "\<not> isInverseFilled ?e" "getOp ?e \<noteq> kIntersect_Op"
               "getOp ?e \<noteq> kReverseDifference_Op" "getType ?e = kPath_Type"
    by code_simp+
  have norenderer: "\<forall>d ty. kCoverageDrawing_StateBit d \<longrightarrow>
                      getPathRenderer demo_env_no_mask_renderer d ?e ty = None"
    by (simp add: demo_env_no_mask_renderer_def)
  have w: "SkIRect_MakeWH (SkIRect_width ?b) (SkIRect_height ?b) = ?b" "fClipTarget demo_mgr = []"
    by code_simp+
  have top: "cs_ok (setupClipping demo_env_no_mask_renderer demo_mgr demo_ds None None None
              (demo_clip [?e]) None)
   \<and> fCurrClipMaskType (cs_mgr (setupClipping demo_env_no_mask_renderer demo_mgr demo_ds
              None None None (demo_clip [?e]) None)) = kAlpha_ClipMaskType
   \<and> fClipTarget (cs_mgr (setupClipping demo_env_no_mask_renderer demo_mgr demo_ds
              None None None (demo_clip [?e]) None))
     = [Cmd_clear ?b 0xffffffff (asRenderTarget ?t)]"
    by code_simp
  from createAlphaClipMask_ignores_failed_draw
         [OF miss alloc direct norenderer, of demo_mgr kAllIn_InitialState] w top
  show ?thesis by simp
qed

end
